theory Spec2Isabelle
  imports Complex_Main
begin

section \<open>JavaScript numbers and values\<close>

text \<open>
  A JavaScript number is a finite value, NaN or one of the two infinities. The operations
  of this section compute on finite values in exact reals; the operations that round to
  binary64, and the functions of the program over them, come in a later section. The
  non-finite values keep the behaviour the language gives them: every comparison with NaN
  is false, and adding one to an infinity gives the same infinity.
\<close>

datatype jsnum = Fin real | NaN | PosInf | NegInf

fun js_add :: "jsnum \<Rightarrow> jsnum \<Rightarrow> jsnum" where
  "js_add (Fin a) (Fin b) = Fin (a + b)"
| "js_add NaN _ = NaN"
| "js_add _ NaN = NaN"
| "js_add PosInf NegInf = NaN"
| "js_add NegInf PosInf = NaN"
| "js_add PosInf _ = PosInf"
| "js_add _ PosInf = PosInf"
| "js_add NegInf _ = NegInf"
| "js_add _ NegInf = NegInf"

fun js_lt :: "jsnum \<Rightarrow> jsnum \<Rightarrow> bool" where
  "js_lt (Fin a) (Fin b) = (a < b)"
| "js_lt NaN _ = False"
| "js_lt _ NaN = False"
| "js_lt NegInf NegInf = False"
| "js_lt NegInf _ = True"
| "js_lt _ NegInf = False"
| "js_lt PosInf _ = False"
| "js_lt _ PosInf = True"

definition js_gt :: "jsnum \<Rightarrow> jsnum \<Rightarrow> bool" where
  "js_gt a b = js_lt b a"

definition js_le :: "jsnum \<Rightarrow> jsnum \<Rightarrow> bool" where
  "js_le a b = (a \<noteq> NaN \<and> b \<noteq> NaN \<and> \<not> js_lt b a)"

definition js_ge :: "jsnum \<Rightarrow> jsnum \<Rightarrow> bool" where
  "js_ge a b = js_le b a"

text \<open>\<open>Math.floor\<close>: NaN and the infinities are returned as they are.\<close>

fun js_floor :: "jsnum \<Rightarrow> jsnum" where
  "js_floor (Fin a) = Fin (of_int \<lfloor>a\<rfloor>)"
| "js_floor NaN = NaN"
| "js_floor PosInf = PosInf"
| "js_floor NegInf = NegInf"

text \<open>\<open>constants.js\<close>: width and height of a tile in world pixels.\<close>

definition TILE_SIZE :: real where
  "TILE_SIZE = 32"

text \<open>
  Division of a number by a positive finite constant, the only division the program
  performs (\<open>v / TILE_SIZE\<close>).
\<close>

fun js_div_pos :: "jsnum \<Rightarrow> real \<Rightarrow> jsnum" where
  "js_div_pos (Fin a) c = Fin (a / c)"
| "js_div_pos NaN c = NaN"
| "js_div_pos PosInf c = PosInf"
| "js_div_pos NegInf c = NegInf"

text \<open>
  The values an argument can be. An object is its list of own properties, looked up by
  name; a property that is absent reads as \<open>undefined\<close>.
\<close>

datatype jsval =
    JUndefined
  | JNull
  | JBool bool
  | JNum jsnum
  | JStr string
  | JObj "(string \<times> jsval) list"

fun truthy :: "jsval \<Rightarrow> bool" where
  "truthy JUndefined = False"
| "truthy JNull = False"
| "truthy (JBool b) = b"
| "truthy (JNum n) = (n \<noteq> NaN \<and> n \<noteq> Fin 0)"
| "truthy (JStr s) = (s \<noteq> [])"
| "truthy (JObj ps) = True"

fun typeof :: "jsval \<Rightarrow> string" where
  "typeof JUndefined = ''undefined''"
| "typeof JNull = ''object''"
| "typeof (JBool b) = ''boolean''"
| "typeof (JNum n) = ''number''"
| "typeof (JStr s) = ''string''"
| "typeof (JObj ps) = ''object''"

text \<open>
  Property read. The program reads properties only of values it has found truthy, and only
  the names \<open>x\<close>, \<open>y\<close>, \<open>width\<close> and \<open>height\<close>, which no primitive value has.
\<close>

fun getProp :: "jsval \<Rightarrow> string \<Rightarrow> jsval" where
  "getProp (JObj ps) k = (case map_of ps k of Some v \<Rightarrow> v | None \<Rightarrow> JUndefined)"
| "getProp _ k = JUndefined"

text \<open>The number held by a value whose \<open>typeof\<close> is \<open>number\<close>.\<close>

fun numberOf :: "jsval \<Rightarrow> jsnum" where
  "numberOf (JNum n) = n"
| "numberOf _ = NaN"

section \<open>Errors\<close>

text \<open>
  \<open>level.js\<close> throws when the goal is out of bounds, and the language throws a
  \<open>TypeError\<close> when a property of \<open>undefined\<close> is read.
\<close>

datatype error = GoalOutOfBounds int int | TypeError

text \<open>
  \<open>detectCollision\<close> throws its own two errors for a bad argument; an exception thrown
  inside \<open>level.isSolid\<close> leaves \<open>detectCollision\<close> as it is.
\<close>

datatype dc_error = InvalidPlayerRect | InvalidLevel | IsSolidThrew error

section \<open>collision.js\<close>

text \<open>
  The \<open>level\<close> argument is duck-typed: anything with a callable \<open>isSolid\<close>. A method
  call may read and change the object it is called on, may throw, and returns any value,
  of which the caller uses the truthiness. The object's state is threaded through every
  call, so that what a call leaves behind is part of the result.
\<close>

type_synonym 's isSolid_method = "'s \<Rightarrow> jsnum \<Rightarrow> jsnum \<Rightarrow> (error + jsval) \<times> 's"

datatype 's level_arg =
    NoLevel
  | NoIsSolid
  | LevelObject 's "'s isSolid_method"

text \<open>
  The inner loop \<open>for (let tx = startX; tx <= endX; tx++)\<close> of one row \<open>ty\<close>.
  \<open>Inr True\<close> is the early \<open>return true\<close>, \<open>Inr False\<close> a loop that ran to its end.
  With an infinite bound the loop need not end, hence the option.
\<close>

partial_function (option) scanRow ::
  "'s isSolid_method \<Rightarrow> jsnum \<Rightarrow> jsnum \<Rightarrow> jsnum \<Rightarrow> 's \<Rightarrow> ((error + bool) \<times> 's) option" where
  "scanRow isSolid tx endX ty s =
     (if js_le tx endX then
        (case isSolid s tx ty of
           (Inl e, s') \<Rightarrow> Some (Inl e, s')
         | (Inr v, s') \<Rightarrow>
             if truthy v then Some (Inr True, s')
             else scanRow isSolid (js_add tx (Fin 1)) endX ty s')
      else Some (Inr False, s))"

text \<open>The outer loop \<open>for (let ty = startY; ty <= endY; ty++)\<close>.\<close>

partial_function (option) scanRows ::
  "'s isSolid_method \<Rightarrow> jsnum \<Rightarrow> jsnum \<Rightarrow> jsnum \<Rightarrow> jsnum \<Rightarrow> 's \<Rightarrow> ((error + bool) \<times> 's) option" where
  "scanRows isSolid startX endX ty endY s =
     (if js_le ty endY then
        (case scanRow isSolid startX endX ty s of
           None \<Rightarrow> None
         | Some (Inl e, s') \<Rightarrow> Some (Inl e, s')
         | Some (Inr found, s') \<Rightarrow>
             if found then Some (Inr True, s')
             else scanRows isSolid startX endX (js_add ty (Fin 1)) endY s')
      else Some (Inr False, s))"

text \<open>
  \<open>detectCollision(playerRect, level)\<close>. The result is the boolean returned or the
  exception thrown, together with the \<open>level\<close> argument as the call leaves it; \<open>None\<close>
  is a call that does not return. \<open>playerRect\<close> is only read.
\<close>

definition detectCollision ::
  "jsval \<Rightarrow> 's level_arg \<Rightarrow> ((dc_error + bool) \<times> 's level_arg) option" where
  "detectCollision playerRect level =
     (if \<not> truthy playerRect \<or>
         typeof (getProp playerRect ''x'') \<noteq> ''number'' \<or>
         typeof (getProp playerRect ''y'') \<noteq> ''number'' \<or>
         typeof (getProp playerRect ''width'') \<noteq> ''number'' \<or>
         typeof (getProp playerRect ''height'') \<noteq> ''number''
      then Some (Inl InvalidPlayerRect, level)
      else
        (case level of
           NoLevel \<Rightarrow> Some (Inl InvalidLevel, level)
         | NoIsSolid \<Rightarrow> Some (Inl InvalidLevel, level)
         | LevelObject s isSolid \<Rightarrow>
             (let x = numberOf (getProp playerRect ''x'');
                  y = numberOf (getProp playerRect ''y'');
                  w = numberOf (getProp playerRect ''width'');
                  h = numberOf (getProp playerRect ''height'');
                  startX = js_floor (js_div_pos x TILE_SIZE);
                  startY = js_floor (js_div_pos y TILE_SIZE);
                  endX = js_floor (js_div_pos (js_add x w) TILE_SIZE);
                  endY = js_floor (js_div_pos (js_add y h) TILE_SIZE)
              in (case scanRows isSolid startX endX startY endY s of
                    None \<Rightarrow> None
                  | Some (Inl e, s') \<Rightarrow> Some (Inl (IsSolidThrew e), LevelObject s' isSolid)
                  | Some (Inr b, s') \<Rightarrow> Some (Inr b, LevelObject s' isSolid)))))"

section \<open>level.js\<close>

subsection \<open>The store and the level document\<close>

text \<open>
  The constructor keeps the document's \<open>tiles\<close> array and \<open>goal\<close> object themselves,
  not copies, so both live in a store and are held by address. The matrix at an address is
  the outer array with its rows; a goal object is its pair \<open>(x, y)\<close>. The collision array
  is read once into a fresh \<open>Set\<close> and no reference to it is kept, so the document holds
  it by value.
\<close>

type_synonym addr = nat

record store =
  matrixAt :: "addr \<Rightarrow> int list list"
  pointAt :: "addr \<Rightarrow> int \<times> int"

record rawData =
  raw_width :: int
  raw_height :: int
  raw_tiles :: addr
  raw_collision :: "int list"
  raw_goal :: addr

text \<open>
  Modelled from the spec: \<open>schemas/levelSchema.json\<close> is not among the sources. Section
  4.1 gives its rules: \<open>width\<close> and \<open>height\<close> are integers at least 1, \<open>tiles\<close> is an array
  of \<open>height\<close> arrays of \<open>width\<close> integers, \<open>collision\<close> is an array of integers, \<open>goal\<close>
  has integer \<open>x\<close> and \<open>y\<close> (whose bounds the schema does not check). That the entries are
  integers is in the types of \<open>rawData\<close> and \<open>store\<close>.
\<close>

definition schemaValid :: "store \<Rightarrow> rawData \<Rightarrow> bool" where
  "schemaValid st rawData =
     (1 \<le> raw_width rawData \<and> 1 \<le> raw_height rawData \<and>
      int (length (matrixAt st (raw_tiles rawData))) = raw_height rawData \<and>
      list_all (\<lambda>row. int (length row) = raw_width rawData) (matrixAt st (raw_tiles rawData)))"

subsection \<open>The Level entity\<close>

text \<open>
  The fields the constructor sets. \<open>collisionTileIds\<close> and \<open>collisionGrid\<close> are objects the
  constructor creates itself, to which nothing else refers when it returns, so the record
  holds their contents.
  \<open>goalReached\<close> is \<open>_goalReached\<close>, which the constructor leaves unset (\<open>undefined\<close>, read
  only for its truthiness). The rendering container is not modelled.
\<close>

record Level =
  width :: int
  height :: int
  tiles :: addr
  collisionTileIds :: "int set"
  goal :: addr
  collisionGrid :: "bool list list"
  goalReached :: bool

text \<open>An array read \<open>xs[i]\<close> at an integer: \<open>undefined\<close> outside the array.\<close>

definition js_nth :: "'a list \<Rightarrow> int \<Rightarrow> 'a option" where
  "js_nth xs i = (if 0 \<le> i \<and> i < int (length xs) then Some (xs ! nat i) else None)"

text \<open>
  An array read at any number: only a non-negative integer below the length names an
  element; a fraction, NaN or an infinity reads \<open>undefined\<close>.
\<close>

fun js_index :: "'a list \<Rightarrow> jsnum \<Rightarrow> 'a option" where
  "js_index xs (Fin r) = (if r = of_int \<lfloor>r\<rfloor> then js_nth xs \<lfloor>r\<rfloor> else None)"
| "js_index xs NaN = None"
| "js_index xs PosInf = None"
| "js_index xs NegInf = None"

text \<open>
  The inner loop of the constructor over \<open>x\<close>, for the row \<open>this.tiles[y]\<close>:
  \<open>collisionGrid[y][x] = collisionTileIds.has(tiles[y][x])\<close>. A tile read past the end of
  the row is \<open>undefined\<close>, which the set does not hold.
\<close>

function buildRow :: "int set \<Rightarrow> int list \<Rightarrow> int \<Rightarrow> int \<Rightarrow> bool list" where
  "buildRow ids row w x =
     (if x < w then
        (case js_nth row x of None \<Rightarrow> False | Some tileId \<Rightarrow> tileId \<in> ids)
          # buildRow ids row w (x + 1)
      else [])"
  by pat_completeness auto
termination
  by (relation "measure (\<lambda>(ids, row, w, x). nat (w - x))") auto

text \<open>
  The outer loop over \<open>y\<close>. When \<open>this.tiles[y]\<close> is \<open>undefined\<close>, the first read
  \<open>this.tiles[y][x]\<close> throws a \<open>TypeError\<close>; with no column the inner loop reads nothing.
\<close>

function buildGrid :: "int set \<Rightarrow> int list list \<Rightarrow> int \<Rightarrow> int \<Rightarrow> int \<Rightarrow> error + bool list list" where
  "buildGrid ids m w h y =
     (if y < h then
        (case js_nth m y of
           None \<Rightarrow>
             if 0 < w then Inl TypeError
             else (case buildGrid ids m w h (y + 1) of
                     Inl e \<Rightarrow> Inl e
                   | Inr rows \<Rightarrow> Inr ([] # rows))
         | Some row \<Rightarrow>
             (case buildGrid ids m w h (y + 1) of
                Inl e \<Rightarrow> Inl e
              | Inr rows \<Rightarrow> Inr (buildRow ids row w 0 # rows)))
      else Inr [])"
  by pat_completeness auto
termination
  by (relation "measure (\<lambda>(ids, m, w, h, y). nat (h - y))") auto

declare buildRow.simps [simp del] buildGrid.simps [simp del]

text \<open>
  \<open>new Level(rawData)\<close>, for a document that passed the schema: either the exception
  thrown or the Level. The message logged before the throw is not modelled.
\<close>

definition Level_constructor :: "store \<Rightarrow> rawData \<Rightarrow> error + Level" where
  "Level_constructor st rawData =
     (let w = raw_width rawData;
          h = raw_height rawData;
          ids = set (raw_collision rawData);
          (gx, gy) = pointAt st (raw_goal rawData)
      in if gx < 0 \<or> gy < 0 \<or> gx \<ge> w \<or> gy \<ge> h then Inl (GoalOutOfBounds gx gy)
         else
           (case buildGrid ids (matrixAt st (raw_tiles rawData)) w h 0 of
              Inl e \<Rightarrow> Inl e
            | Inr grid \<Rightarrow>
                Inr \<lparr> width = w, height = h, tiles = raw_tiles rawData,
                      collisionTileIds = ids, goal = raw_goal rawData,
                      collisionGrid = grid, goalReached = False \<rparr>))"

text \<open>
  \<open>isSolid(x, y)\<close>. Past the guard, \<open>this.collisionGrid[y]\<close> may be \<open>undefined\<close>, and
  reading \<open>[x]\<close> of it throws; a row read outside its elements gives \<open>undefined\<close>.
\<close>

definition isSolid :: "Level \<Rightarrow> jsnum \<Rightarrow> jsnum \<Rightarrow> error + jsval" where
  "isSolid L x y =
     (if js_lt x (Fin 0) \<or> js_lt y (Fin 0) \<or>
         js_ge x (Fin (of_int (width L))) \<or> js_ge y (Fin (of_int (height L)))
      then Inr (JBool False)
      else
        (case js_index (collisionGrid L) y of
           None \<Rightarrow> Inl TypeError
         | Some row \<Rightarrow>
             (case js_index row x of
                None \<Rightarrow> Inr JUndefined
              | Some b \<Rightarrow> Inr (JBool b))))"

text \<open>
  \<open>isSolid\<close> as the method \<open>detectCollision\<close> calls: it assigns to nothing, so the Level
  it is called on is the Level it leaves.
\<close>

definition Level_isSolid :: "Level isSolid_method" where
  "Level_isSolid L x y = (isSolid L x y, L)"

definition levelArg :: "Level \<Rightarrow> Level level_arg" where
  "levelArg L = LevelObject L Level_isSolid"

text \<open>\<open>getGoalPosition()\<close>: a new object with the goal's current \<open>x\<close> and \<open>y\<close>.\<close>

definition getGoalPosition :: "store \<Rightarrow> Level \<Rightarrow> int \<times> int" where
  "getGoalPosition st L = pointAt st (goal L)"

text \<open>
  The player rectangle of \<open>checkGoal\<close>, with the four numeric fields its documentation
  declares; \<open>checkGoal\<close> checks none of them.
\<close>

record rect =
  rect_x :: jsnum
  rect_y :: jsnum
  rect_width :: jsnum
  rect_height :: jsnum

text \<open>The rectangle whose four fields are the finite numbers given.\<close>

definition finiteRect :: "real \<Rightarrow> real \<Rightarrow> real \<Rightarrow> real \<Rightarrow> rect" where
  "finiteRect x y w h =
     \<lparr> rect_x = Fin x, rect_y = Fin y, rect_width = Fin w, rect_height = Fin h \<rparr>"

definition rectObject :: "rect \<Rightarrow> jsval" where
  "rectObject r =
     JObj [(''x'', JNum (rect_x r)), (''y'', JNum (rect_y r)),
           (''width'', JNum (rect_width r)), (''height'', JNum (rect_height r))]"

text \<open>The overlap test of \<open>checkGoal\<close> against the goal tile's world rectangle.\<close>

definition goalOverlap :: "store \<Rightarrow> rect \<Rightarrow> Level \<Rightarrow> bool" where
  "goalOverlap st playerRect L =
     (let (gx, gy) = pointAt st (goal L);
          goalWorldX = Fin (of_int gx * TILE_SIZE);
          goalWorldY = Fin (of_int gy * TILE_SIZE);
          goalWidth = Fin TILE_SIZE;
          goalHeight = Fin TILE_SIZE
      in js_lt (rect_x playerRect) (js_add goalWorldX goalWidth) \<and>
         js_gt (js_add (rect_x playerRect) (rect_width playerRect)) goalWorldX \<and>
         js_lt (rect_y playerRect) (js_add goalWorldY goalHeight) \<and>
         js_gt (js_add (rect_y playerRect) (rect_height playerRect)) goalWorldY)"

text \<open>
  \<open>checkGoal(playerRect)\<close>: the boolean returned, the events emitted by this call, and
  the Level after it.
\<close>

definition checkGoal :: "store \<Rightarrow> rect \<Rightarrow> Level \<Rightarrow> (bool \<times> string list) \<times> Level" where
  "checkGoal st playerRect L =
     (let overlap = goalOverlap st playerRect L
      in if overlap \<and> \<not> goalReached L
         then ((overlap, [''levelComplete'']), L\<lparr>goalReached := True\<rparr>)
         else ((overlap, []), L))"


subsection \<open>Reads and writes from outside the Level\<close>

text \<open>The read \<open>tiles[y][x]\<close> of a matrix in the store; \<open>None\<close> is \<open>undefined\<close>.\<close>

definition tileAt :: "store \<Rightarrow> addr \<Rightarrow> int \<Rightarrow> int \<Rightarrow> int option" where
  "tileAt st a y x =
     (case js_nth (matrixAt st a) y of None \<Rightarrow> None | Some row \<Rightarrow> js_nth row x)"

text \<open>
  A caller that still holds the document can assign into it. \<open>setTiles\<close> is the store
  after the document's tiles array has been changed in place to the matrix \<open>m\<close> (for
  one assignment \<open>rawData.tiles[y][x] = v\<close>, \<open>m\<close> is the old matrix with that entry
  replaced), \<open>setGoal\<close> the store after \<open>rawData.goal.x\<close> and \<open>rawData.goal.y\<close> have
  been assigned.
\<close>

definition setTiles :: "rawData \<Rightarrow> int list list \<Rightarrow> store \<Rightarrow> store" where
  "setTiles rawData m st = st\<lparr>matrixAt := (matrixAt st)(raw_tiles rawData := m)\<rparr>"

definition setGoal :: "rawData \<Rightarrow> int \<times> int \<Rightarrow> store \<Rightarrow> store" where
  "setGoal rawData g st = st\<lparr>pointAt := (pointAt st)(raw_goal rawData := g)\<rparr>"

subsection \<open>The level of the loader's test\<close>

text \<open>
  \<open>createValidLevel()\<close> of \<open>tests/levelLoader.test.js\<close>: the document, a store that holds
  its tiles and its goal at address 0, and the Level the test expects.
\<close>

definition test_store :: store where
  "test_store =
     \<lparr> matrixAt = (\<lambda>a. if a = 0 then [[0, 1, 0, 2], [0, 0, 2, 2], [1, 1, 0, 0]] else []),
       pointAt = (\<lambda>a. if a = 0 then (3, 2) else (0, 0)) \<rparr>"

definition test_rawData :: rawData where
  "test_rawData =
     \<lparr> raw_width = 4, raw_height = 3, raw_tiles = 0, raw_collision = [1, 2], raw_goal = 0 \<rparr>"

definition test_Level :: Level where
  "test_Level =
     \<lparr> width = 4, height = 3, tiles = 0, collisionTileIds = {1, 2}, goal = 0,
       collisionGrid =
         [[False, True, False, True], [False, False, True, True], [True, True, False, False]],
       goalReached = False \<rparr>"

section \<open>The same functions in binary64 arithmetic\<close>

text \<open>
  The definitions above add, divide and count in exact reals. That does not touch the
  argument guard of \<open>detectCollision\<close>, the order of the events of \<open>checkGoal\<close> or an exact
  edge contact, but it is not what the program computes where a sum is rounded or a loop
  counter reaches \<open>2^53\<close>. The definitions of this section follow the same source lines with
  the arithmetic of binary64 numbers: every sum and quotient is rounded to the nearest
  representable number, ties to the even significand, and overflows to an infinity. The
  negative zero is not told apart from zero; no operation of the program does.
\<close>

subsection \<open>Rounding\<close>

text \<open>The finite binary64 numbers: a significand below \<open>2^53\<close> and an exponent.\<close>

definition binary64 :: "real \<Rightarrow> bool" where
  "binary64 r = (\<exists>m e. \<bar>m\<bar> < 2 ^ 53 \<and> - 1074 \<le> e \<and> e \<le> 971 \<and> r = of_int m * 2 powi e)"

text \<open>The nearest integer, a tie going to the even one.\<close>

definition round_even :: "real \<Rightarrow> int" where
  "round_even q =
     (let f = \<lfloor>q\<rfloor>; d = q - of_int f
      in if d < 1 / 2 then f else if 1 / 2 < d then f + 1 else if even f then f else f + 1)"

text \<open>
  The exponent of the unit in the last place of a number that is not zero: 52 below the
  exponent of the number, and never below that of the subnormal numbers.
\<close>

definition ulp_exponent :: "real \<Rightarrow> int" where
  "ulp_exponent r = max (\<lfloor>log 2 \<bar>r\<bar>\<rfloor> - 52) (- 1074)"

text \<open>The binary64 number that an exact result is rounded to.\<close>

definition round64 :: "real \<Rightarrow> jsnum" where
  "round64 r =
     (if r = 0 then Fin 0
      else
        (let u = ulp_exponent r;
             v = of_int (round_even (r / 2 powi u)) * 2 powi u
         in if 2 ^ 1024 \<le> \<bar>v\<bar> then (if 0 < r then PosInf else NegInf) else Fin v))"

fun js_add64 :: "jsnum \<Rightarrow> jsnum \<Rightarrow> jsnum" where
  "js_add64 (Fin a) (Fin b) = round64 (a + b)"
| "js_add64 NaN _ = NaN"
| "js_add64 _ NaN = NaN"
| "js_add64 PosInf NegInf = NaN"
| "js_add64 NegInf PosInf = NaN"
| "js_add64 PosInf _ = PosInf"
| "js_add64 _ PosInf = PosInf"
| "js_add64 NegInf _ = NegInf"
| "js_add64 _ NegInf = NegInf"

text \<open>Division by a positive finite constant (\<open>v / TILE_SIZE\<close>); a tiny quotient underflows.\<close>

fun js_div64 :: "jsnum \<Rightarrow> real \<Rightarrow> jsnum" where
  "js_div64 (Fin a) c = round64 (a / c)"
| "js_div64 NaN c = NaN"
| "js_div64 PosInf c = PosInf"
| "js_div64 NegInf c = NegInf"

text \<open>\<open>Math.floor(v / TILE_SIZE)\<close>, the tile index of a world coordinate.\<close>

definition tileIndex :: "jsnum \<Rightarrow> jsnum" where
  "tileIndex v = js_floor (js_div64 v TILE_SIZE)"

subsection \<open>detectCollision, with both arguments in the state\<close>

text \<open>
  The state is everything a call can reach: the \<open>playerRect\<close> object and whatever else
  there is (for a Level: the store and the Level). \<open>level.isSolid\<close> is a method on that
  state, so a call of it may change \<open>playerRect\<close> as well as the level.
\<close>

record 's world =
  rectObj :: jsval
  others :: 's

type_synonym 's method64 = "'s world \<Rightarrow> jsnum \<Rightarrow> jsnum \<Rightarrow> (error + jsval) \<times> 's world"

datatype 's level_value =
    LevelFalsy
  | LevelNotCallable
  | LevelCallable "'s method64"

partial_function (option) scanRow64 ::
  "'s method64 \<Rightarrow> jsnum \<Rightarrow> jsnum \<Rightarrow> jsnum \<Rightarrow> 's world \<Rightarrow> ((error + bool) \<times> 's world) option" where
  "scanRow64 isSolidM tx endX ty s =
     (if js_le tx endX then
        (case isSolidM s tx ty of
           (Inl e, s') \<Rightarrow> Some (Inl e, s')
         | (Inr v, s') \<Rightarrow>
             if truthy v then Some (Inr True, s')
             else scanRow64 isSolidM (js_add64 tx (Fin 1)) endX ty s')
      else Some (Inr False, s))"

partial_function (option) scanRows64 ::
  "'s method64 \<Rightarrow> jsnum \<Rightarrow> jsnum \<Rightarrow> jsnum \<Rightarrow> jsnum \<Rightarrow> 's world \<Rightarrow> ((error + bool) \<times> 's world) option" where
  "scanRows64 isSolidM startX endX ty endY s =
     (if js_le ty endY then
        (case scanRow64 isSolidM startX endX ty s of
           None \<Rightarrow> None
         | Some (Inl e, s') \<Rightarrow> Some (Inl e, s')
         | Some (Inr found, s') \<Rightarrow>
             if found then Some (Inr True, s')
             else scanRows64 isSolidM startX endX (js_add64 ty (Fin 1)) endY s')
      else Some (Inr False, s))"

text \<open>
  \<open>detectCollision(playerRect, level)\<close> on a state that holds \<open>playerRect\<close>: the result
  and the state the call leaves, or \<open>None\<close> for a call that does not return.
\<close>

definition detectCollision64 ::
  "'s level_value \<Rightarrow> 's world \<Rightarrow> ((dc_error + bool) \<times> 's world) option" where
  "detectCollision64 level s =
     (let playerRect = rectObj s
      in if \<not> truthy playerRect \<or>
            typeof (getProp playerRect ''x'') \<noteq> ''number'' \<or>
            typeof (getProp playerRect ''y'') \<noteq> ''number'' \<or>
            typeof (getProp playerRect ''width'') \<noteq> ''number'' \<or>
            typeof (getProp playerRect ''height'') \<noteq> ''number''
         then Some (Inl InvalidPlayerRect, s)
         else
           (case level of
              LevelFalsy \<Rightarrow> Some (Inl InvalidLevel, s)
            | LevelNotCallable \<Rightarrow> Some (Inl InvalidLevel, s)
            | LevelCallable isSolidM \<Rightarrow>
                (let x = numberOf (getProp playerRect ''x'');
                     y = numberOf (getProp playerRect ''y'');
                     w = numberOf (getProp playerRect ''width'');
                     h = numberOf (getProp playerRect ''height'');
                     startX = tileIndex x;
                     startY = tileIndex y;
                     endX = tileIndex (js_add64 x w);
                     endY = tileIndex (js_add64 y h)
                 in (case scanRows64 isSolidM startX endX startY endY s of
                       None \<Rightarrow> None
                     | Some (Inl e, s') \<Rightarrow> Some (Inl (IsSolidThrew e), s')
                     | Some (Inr b, s') \<Rightarrow> Some (Inr b, s')))))"

text \<open>
  \<open>Level.isSolid\<close> as a method on a state that holds the store and the Level: it reads the
  Level's \<open>width\<close>, \<open>height\<close> and \<open>collisionGrid\<close> and assigns to nothing.
\<close>

definition Level_isSolid64 :: "(store \<times> Level) method64" where
  "Level_isSolid64 s x y = (isSolid (snd (others s)) x y, s)"

subsection \<open>checkGoal\<close>

text \<open>
  The overlap test with the sums rounded. \<open>this.goal.x * TILE_SIZE\<close> multiplies an integer
  by 32, which is rounded like any other result.
\<close>

definition goalOverlap64 :: "store \<Rightarrow> rect \<Rightarrow> Level \<Rightarrow> bool" where
  "goalOverlap64 st playerRect L =
     (let (gx, gy) = pointAt st (goal L);
          goalWorldX = round64 (of_int gx * TILE_SIZE);
          goalWorldY = round64 (of_int gy * TILE_SIZE);
          goalWidth = Fin TILE_SIZE;
          goalHeight = Fin TILE_SIZE
      in js_lt (rect_x playerRect) (js_add64 goalWorldX goalWidth) \<and>
         js_gt (js_add64 (rect_x playerRect) (rect_width playerRect)) goalWorldX \<and>
         js_lt (rect_y playerRect) (js_add64 goalWorldY goalHeight) \<and>
         js_gt (js_add64 (rect_y playerRect) (rect_height playerRect)) goalWorldY)"

definition checkGoal64 :: "store \<Rightarrow> rect \<Rightarrow> Level \<Rightarrow> (bool \<times> string list) \<times> Level" where
  "checkGoal64 st playerRect L =
     (let overlap = goalOverlap64 st playerRect L
      in if overlap \<and> \<not> goalReached L
         then ((overlap, [''levelComplete'']), L\<lparr>goalReached := True\<rparr>)
         else ((overlap, []), L))"

text \<open>
  The level of the specification's comparison, whose only solid tile is the goal tile, as
  a value for \<open>detectCollision64\<close>.
\<close>

definition spec_goalOnlyLevel64 :: "int \<Rightarrow> int \<Rightarrow> unit level_value" where
  "spec_goalOnlyLevel64 gx gy =
     LevelCallable
       (\<lambda>s tx ty. (Inr (JBool (tx = Fin (of_int gx) \<and> ty = Fin (of_int gy))), s))"

section \<open>Auxiliary facts\<close>

lemma js_le_Fin: "js_le (Fin a) (Fin b) = (a \<le> b)"
  by (auto simp: js_le_def)

lemma bex_atLeastAtMost_first:
  "a \<le> b \<Longrightarrow> (\<exists>t\<in>{a..b::int}. P t) = (P a \<or> (\<exists>t\<in>{a + 1..b}. P t))"
proof -
  assume "a \<le> b"
  then have "{a..b} = insert a {a + 1..b}" by auto
  then show ?thesis by simp
qed

lemma getProp_JNum_truthy: "getProp r k = JNum n \<Longrightarrow> truthy r"
  by (cases r) simp_all

section \<open>The grid builder\<close>

lemma buildRow_length: "length (buildRow ids row w x) = nat (w - x)"
proof (induction ids row w x rule: buildRow.induct)
  case (1 ids row w x)
  show ?case
  proof (cases "x < w")
    case True
    with 1 have "length (buildRow ids row w (x + 1)) = nat (w - (x + 1))" by simp
    with True show ?thesis by (subst buildRow.simps) simp
  next
    case False
    then show ?thesis by (subst buildRow.simps) simp
  qed
qed

lemma buildRow_nth:
  "0 \<le> i \<Longrightarrow> x + i < w \<Longrightarrow>
   buildRow ids row w x ! nat i = (case js_nth row (x + i) of None \<Rightarrow> False | Some t \<Rightarrow> t \<in> ids)"
proof (induction ids row w x arbitrary: i rule: buildRow.induct)
  case (1 ids row w x)
  from 1(2,3) have xw: "x < w" by simp
  show ?case
  proof (cases "i = 0")
    case True
    with xw show ?thesis by (subst buildRow.simps) simp
  next
    case False
    with 1(2) have pos: "0 \<le> i - 1" and nat: "nat i = Suc (nat (i - 1))" by simp_all
    from 1(3) have "x + 1 + (i - 1) < w" by simp
    from 1(1)[OF xw pos this] xw show ?thesis
      by (subst buildRow.simps) (simp add: nat)
  qed
qed

lemma buildGrid_length: "buildGrid ids m w h y = Inr g \<Longrightarrow> length g = nat (h - y)"
proof (induction ids m w h y arbitrary: g rule: buildGrid.induct)
  case (1 ids m w h y)
  show ?case
  proof (cases "y < h")
    case False
    with 1(3) show ?thesis by (subst (asm) buildGrid.simps) auto
  next
    case True
    from 1(3) True obtain g' where g': "buildGrid ids m w h (y + 1) = Inr g'" and len: "length g = Suc (length g')"
      by (subst (asm) buildGrid.simps) (auto split: option.splits if_splits sum.splits)
    have "length g' = nat (h - (y + 1))"
    proof (cases "js_nth m y")
      case None
      with 1(3) True have "\<not> 0 < w" by (subst (asm) buildGrid.simps) (auto split: if_splits)
      from 1(1)[OF True None this g'] show ?thesis .
    next
      case (Some row)
      from 1(2)[OF True Some g'] show ?thesis .
    qed
    with len True show ?thesis by simp
  qed
qed

lemma buildGrid_nth:
  "buildGrid ids m w h y = Inr g \<Longrightarrow> 0 \<le> j \<Longrightarrow> y + j < h \<Longrightarrow>
   g ! nat j = (case js_nth m (y + j) of None \<Rightarrow> [] | Some row \<Rightarrow> buildRow ids row w 0)"
proof (induction ids m w h y arbitrary: g j rule: buildGrid.induct)
  case (1 ids m w h y)
  from 1(4,5) have yh: "y < h" by simp
  from 1(3) yh obtain g' where g': "buildGrid ids m w h (y + 1) = Inr g'"
      and g: "g = (case js_nth m y of None \<Rightarrow> [] | Some row \<Rightarrow> buildRow ids row w 0) # g'"
    by (subst (asm) buildGrid.simps) (auto split: option.splits if_splits sum.splits)
  show ?case
  proof (cases "j = 0")
    case True
    with g show ?thesis by simp
  next
    case False
    with 1(4) have pos: "0 \<le> j - 1" and nat: "nat j = Suc (nat (j - 1))" by simp_all
    from 1(5) have lt: "y + 1 + (j - 1) < h" by simp
    have "g' ! nat (j - 1) = (case js_nth m (y + 1 + (j - 1)) of None \<Rightarrow> [] | Some row \<Rightarrow> buildRow ids row w 0)"
    proof (cases "js_nth m y")
      case None
      with 1(3) yh have "\<not> 0 < w" by (subst (asm) buildGrid.simps) (auto split: if_splits)
      from 1(1)[OF yh None this g' pos lt] show ?thesis .
    next
      case (Some row)
      from 1(2)[OF yh Some g' pos lt] show ?thesis .
    qed
    with g show ?thesis by (simp add: nat)
  qed
qed

lemma buildGrid_row_present:
  "buildGrid ids m w h y = Inr g \<Longrightarrow> 0 < w \<Longrightarrow> y \<le> k \<Longrightarrow> k < h \<Longrightarrow> js_nth m k \<noteq> None"
proof (induction ids m w h y arbitrary: g rule: buildGrid.induct)
  case (1 ids m w h y)
  from 1(5,6) have yh: "y < h" by simp
  from 1(3) yh 1(4) obtain row where row: "js_nth m y = Some row"
    by (subst (asm) buildGrid.simps) (auto split: option.splits if_splits sum.splits)
  from 1(3) yh row obtain g' where g': "buildGrid ids m w h (y + 1) = Inr g'"
    by (subst (asm) buildGrid.simps) (auto split: option.splits if_splits sum.splits)
  show ?case
  proof (cases "k = y")
    case True
    with row show ?thesis by simp
  next
    case False
    with 1(5) have "y + 1 \<le> k" by simp
    from 1(2)[OF yh row g' 1(4) this 1(6)] show ?thesis .
  qed
qed

lemma buildGrid_total:
  "(\<And>k. y \<le> k \<Longrightarrow> k < h \<Longrightarrow> js_nth m k \<noteq> None) \<Longrightarrow> \<exists>g. buildGrid ids m w h y = Inr g"
proof (induction ids m w h y rule: buildGrid.induct)
  case (1 ids m w h y)
  show ?case
  proof (cases "y < h")
    case False
    then show ?thesis by (subst buildGrid.simps) simp
  next
    case True
    with 1(3)[of y] obtain row where row: "js_nth m y = Some row" by auto
    have "\<exists>g. buildGrid ids m w h (y + 1) = Inr g"
      by (rule 1(2)[OF True row]) (use 1(3) in auto)
    then obtain g' where "buildGrid ids m w h (y + 1) = Inr g'" ..
    with True row show ?thesis by (subst buildGrid.simps) simp
  qed
qed


section \<open>The constructed Level\<close>

lemma Level_constructor_Inr:
  assumes "Level_constructor st d = Inr L"
  obtains gx gy g where "pointAt st (raw_goal d) = (gx, gy)"
    and "0 \<le> gx" and "gx < raw_width d" and "0 \<le> gy" and "gy < raw_height d"
    and "buildGrid (set (raw_collision d)) (matrixAt st (raw_tiles d)) (raw_width d) (raw_height d) 0 = Inr g"
    and "L = \<lparr> width = raw_width d, height = raw_height d, tiles = raw_tiles d,
                collisionTileIds = set (raw_collision d), goal = raw_goal d,
                collisionGrid = g, goalReached = False \<rparr>"
  using assms unfolding Level_constructor_def
  by (auto simp: Let_def split: prod.splits if_splits sum.splits)

lemma test_Level_constructed: "Level_constructor test_store test_rawData = Inr test_Level"
  by (simp add: Level_constructor_def test_store_def test_rawData_def test_Level_def
      buildGrid.simps buildRow.simps js_nth_def)

lemma constructed_grid:
  assumes "Level_constructor st rawData = Inr L"
  shows "length (collisionGrid L) = nat (height L) \<and> 1 \<le> height L \<and> 1 \<le> width L \<and>
         (\<forall>row \<in> set (collisionGrid L). length row = nat (width L)) \<and>
         (\<forall>x y. 0 \<le> x \<and> x < width L \<and> 0 \<le> y \<and> y < height L \<longrightarrow>
            collisionGrid L ! nat y ! nat x =
              (\<exists>t \<in> set (raw_collision rawData). tileAt st (tiles L) y x = Some t))"
proof -
  from assms obtain gx gy g where goal: "0 \<le> gx" "gx < raw_width rawData" "0 \<le> gy" "gy < raw_height rawData"
    and g: "buildGrid (set (raw_collision rawData)) (matrixAt st (raw_tiles rawData))
              (raw_width rawData) (raw_height rawData) 0 = Inr g"
    and L: "L = \<lparr> width = raw_width rawData, height = raw_height rawData, tiles = raw_tiles rawData,
                collisionTileIds = set (raw_collision rawData), goal = raw_goal rawData,
                collisionGrid = g, goalReached = False \<rparr>"
    by (rule Level_constructor_Inr)
  let ?m = "matrixAt st (raw_tiles rawData)"
  let ?ids = "set (raw_collision rawData)"
  have wpos: "0 < raw_width rawData" using goal by simp
  have len: "length g = nat (raw_height rawData)"
    using buildGrid_length[OF g] by simp
  have row: "g ! nat y = buildRow ?ids r (raw_width rawData) 0 \<and> js_nth ?m y = Some r"
    if "0 \<le> y" "y < raw_height rawData" "js_nth ?m y = Some r" for y r
    using buildGrid_nth[OF g, of y] that by simp
  have present: "\<exists>r. js_nth ?m y = Some r" if "0 \<le> y" "y < raw_height rawData" for y
    using buildGrid_row_present[OF g wpos, of y] that by auto
  have rows: "length r = nat (raw_width rawData)" if "r \<in> set g" for r
  proof -
    from that obtain k where k: "k < length g" "r = g ! k" by (auto simp: in_set_conv_nth)
    then have b: "0 \<le> int k" "int k < raw_height rawData" using len by simp_all
    from present[OF b] obtain r' where "js_nth ?m (int k) = Some r'" ..
    from row[OF b this] k show ?thesis by (simp add: buildRow_length)
  qed
  have cell: "g ! nat y ! nat x = (\<exists>t \<in> ?ids. tileAt st (raw_tiles rawData) y x = Some t)"
    if "0 \<le> x" "x < raw_width rawData" "0 \<le> y" "y < raw_height rawData" for x y
  proof -
    from present[OF that(3,4)] obtain r where r: "js_nth ?m y = Some r" ..
    from row[OF that(3,4) r] have "g ! nat y ! nat x = buildRow ?ids r (raw_width rawData) 0 ! nat x"
      by simp
    also have "\<dots> = (case js_nth r x of None \<Rightarrow> False | Some t \<Rightarrow> t \<in> ?ids)"
      using buildRow_nth[of x 0 "raw_width rawData" ?ids r] that by simp
    also have "\<dots> = (\<exists>t \<in> ?ids. tileAt st (raw_tiles rawData) y x = Some t)"
      by (auto simp: tileAt_def r split: option.splits)
    finally show ?thesis .
  qed
  show ?thesis
    using len rows cell goal by (simp add: L)
qed

text \<open>
  C2. For every Level the constructor returns, the collision grid has \<open>height\<close> rows of
  \<open>width\<close> entries each, and for every cell in bounds \<open>collisionGrid[y][x]\<close> tells whether
  \<open>tiles[y][x]\<close> is one of the ids of the document's collision array.
\<close>

theorem collisionGrid_matches_tiles:
  assumes "Level_constructor st rawData = Inr L"
  shows "length (collisionGrid L) = nat (height L) \<and> 1 \<le> height L \<and> 1 \<le> width L \<and>
         (\<forall>row \<in> set (collisionGrid L). length row = nat (width L)) \<and>
         (\<forall>x y. 0 \<le> x \<and> x < width L \<and> 0 \<le> y \<and> y < height L \<longrightarrow>
            collisionGrid L ! nat y ! nat x =
              (\<exists>t \<in> set (raw_collision rawData). tileAt st (tiles L) y x = Some t))"
  using assms by (rule constructed_grid)

theorem collisionGrid_matches_tiles_witness:
  "Level_constructor test_store test_rawData = Inr test_Level \<and>
   length (collisionGrid test_Level) = 3 \<and>
   collisionGrid test_Level ! 0 ! 1 = (tileAt test_store 0 0 1 = Some 1) \<and>
   collisionGrid test_Level ! 0 ! 2 = (0 \<in> {1, 2 :: int})"
proof -
  have "tileAt test_store 0 0 1 = Some 1" "tileAt test_store 0 0 2 = Some 0"
    by (simp_all add: tileAt_def test_store_def js_nth_def)
  then show ?thesis
    using collisionGrid_matches_tiles[OF test_Level_constructed] test_Level_constructed
    by (simp add: test_Level_def)
qed


lemma js_ge_Fin: "js_ge (Fin a) (Fin b) = (b \<le> a)"
  by (auto simp: js_ge_def js_le_def)

lemma js_index_int: "js_index xs (Fin (of_int i)) = js_nth xs i"
  by simp

lemma isSolid_constructed:
  assumes "Level_constructor st rawData = Inr L"
  shows "(\<forall>x y. \<not> (0 \<le> x \<and> x < of_int (width L) \<and> 0 \<le> y \<and> y < of_int (height L)) \<longrightarrow>
            isSolid L (Fin x) (Fin y) = Inr (JBool False)) \<and>
         (\<forall>x y. x \<in> {PosInf, NegInf} \<or> y \<in> {PosInf, NegInf} \<longrightarrow>
            isSolid L x y = Inr (JBool False)) \<and>
         (\<forall>i j. 0 \<le> i \<and> i < width L \<and> 0 \<le> j \<and> j < height L \<longrightarrow>
            isSolid L (Fin (of_int i)) (Fin (of_int j)) =
              Inr (JBool (collisionGrid L ! nat j ! nat i)))"
proof -
  have out: "isSolid L (Fin x) (Fin y) = Inr (JBool False)"
    if "\<not> (0 \<le> x \<and> x < of_int (width L) \<and> 0 \<le> y \<and> y < of_int (height L))" for x y
    using that by (auto simp: isSolid_def js_ge_Fin)
  have inf: "isSolid L x y = Inr (JBool False)"
    if "x \<in> {PosInf, NegInf} \<or> y \<in> {PosInf, NegInf}" for x y
    using that by (cases x; cases y) (auto simp: isSolid_def js_ge_def js_le_def)
  have grid: "isSolid L (Fin (of_int i)) (Fin (of_int j)) = Inr (JBool (collisionGrid L ! nat j ! nat i))"
    if b: "0 \<le> i \<and> i < width L \<and> 0 \<le> j \<and> j < height L" for i j
  proof -
    from constructed_grid[OF assms]
    have len: "length (collisionGrid L) = nat (height L)"
      and rows: "\<forall>row \<in> set (collisionGrid L). length row = nat (width L)"
      by simp_all
    from b len have j: "nat j < length (collisionGrid L)" by simp
    then have "collisionGrid L ! nat j \<in> set (collisionGrid L)" by simp
    with rows b have i: "nat i < length (collisionGrid L ! nat j)" by simp
    from b i j have "j < int (length (collisionGrid L))"
      and "i < int (length (collisionGrid L ! nat j))"
      by linarith+
    with b show ?thesis
      unfolding isSolid_def js_index_int
      by (simp add: js_ge_Fin js_nth_def)
  qed
  from out inf grid show ?thesis by blast
qed


text \<open>
  C3. For every constructed Level, \<open>isSolid(x, y)\<close> returns false, and does not throw, for
  every pair of coordinates outside \<open>[0, width) \<times> [0, height)\<close>, whole or fractional, and
  for every pair with an infinite coordinate; for integer coordinates in bounds it returns
  \<open>collisionGrid[y][x]\<close>.
\<close>

theorem isSolid_out_of_bounds_false_in_bounds_grid:
  assumes "Level_constructor st rawData = Inr L"
  shows "(\<forall>x y. \<not> (0 \<le> x \<and> x < of_int (width L) \<and> 0 \<le> y \<and> y < of_int (height L)) \<longrightarrow>
            isSolid L (Fin x) (Fin y) = Inr (JBool False)) \<and>
         (\<forall>x y. x \<in> {PosInf, NegInf} \<or> y \<in> {PosInf, NegInf} \<longrightarrow>
            isSolid L x y = Inr (JBool False)) \<and>
         (\<forall>i j. 0 \<le> i \<and> i < width L \<and> 0 \<le> j \<and> j < height L \<longrightarrow>
            isSolid L (Fin (of_int i)) (Fin (of_int j)) =
              Inr (JBool (collisionGrid L ! nat j ! nat i)))"
  using assms by (rule isSolid_constructed)

theorem isSolid_out_of_bounds_false_in_bounds_grid_witness:
  "Level_constructor test_store test_rawData = Inr test_Level \<and>
   isSolid test_Level (Fin 4) (Fin 0) = Inr (JBool False) \<and>
   isSolid test_Level (Fin (- 1)) (Fin (5 / 2)) = Inr (JBool False) \<and>
   isSolid test_Level PosInf (Fin 0) = Inr (JBool False) \<and>
   isSolid test_Level (Fin 1) (Fin 0) = Inr (JBool True) \<and>
   isSolid test_Level (Fin 0) (Fin 0) = Inr (JBool False)"
proof -
  note facts = isSolid_out_of_bounds_false_in_bounds_grid[OF test_Level_constructed]
  have out: "isSolid test_Level (Fin x) (Fin y) = Inr (JBool False)"
    if "\<not> (0 \<le> x \<and> x < of_int (width test_Level) \<and> 0 \<le> y \<and> y < of_int (height test_Level))"
    for x y
    using facts that by blast
  have inf: "isSolid test_Level PosInf y = Inr (JBool False)" for y
    using facts by blast
  have grid: "isSolid test_Level (Fin (of_int i)) (Fin (of_int j)) =
                Inr (JBool (collisionGrid test_Level ! nat j ! nat i))"
    if "0 \<le> i \<and> i < width test_Level \<and> 0 \<le> j \<and> j < height test_Level" for i j
    using facts that by blast
  have a: "isSolid test_Level (Fin 4) (Fin 0) = Inr (JBool False)"
    by (rule out) (simp add: test_Level_def)
  have b: "isSolid test_Level (Fin (- 1)) (Fin (5 / 2)) = Inr (JBool False)"
    by (rule out) (simp add: test_Level_def)
  have c: "isSolid test_Level PosInf (Fin 0) = Inr (JBool False)"
    by (rule inf)
  have d: "isSolid test_Level (Fin 1) (Fin 0) = Inr (JBool True)"
    using grid[of 1 0] by (simp add: test_Level_def)
  have e: "isSolid test_Level (Fin 0) (Fin 0) = Inr (JBool False)"
    using grid[of 0 0] by (simp add: test_Level_def)
  from a b c d e test_Level_constructed show ?thesis by simp
qed

text \<open>
  NaN is outside the statement above. Every comparison of the guard is false for it, so
  the method goes on to read the grid: with NaN for \<open>y\<close> the row is \<open>undefined\<close> and the
  read of its element throws, with NaN for \<open>x\<close> the element is \<open>undefined\<close>.
\<close>

lemma isSolid_NaN_row: "isSolid test_Level (Fin 0) NaN = Inl TypeError"
  by (simp add: isSolid_def js_ge_def js_le_def test_Level_def)

lemma isSolid_NaN_column: "isSolid test_Level NaN (Fin 0) = Inr JUndefined"
  by (simp add: isSolid_def js_ge_def js_le_def test_Level_def js_nth_def)

text \<open>
  C6. For a document that passes the schema, construction throws the bounds error,
  and gives no Level, when \<open>goal.x < 0\<close>, \<open>goal.y < 0\<close>, \<open>goal.x \<ge> width\<close> or
  \<open>goal.y \<ge> height\<close>; in every other case it returns a Level whose goal lies in
  \<open>[0, width) \<times> [0, height)\<close>.
\<close>

theorem constructor_fails_iff_goal_out_of_bounds:
  assumes valid: "schemaValid st rawData"
      and goal: "pointAt st (raw_goal rawData) = (gx, gy)"
  shows "(gx < 0 \<or> gy < 0 \<or> gx \<ge> raw_width rawData \<or> gy \<ge> raw_height rawData \<longrightarrow>
            Level_constructor st rawData = Inl (GoalOutOfBounds gx gy)) \<and>
         (\<not> (gx < 0 \<or> gy < 0 \<or> gx \<ge> raw_width rawData \<or> gy \<ge> raw_height rawData) \<longrightarrow>
            (\<exists>L. Level_constructor st rawData = Inr L \<and>
                 getGoalPosition st L = (gx, gy) \<and>
                 0 \<le> gx \<and> gx < width L \<and> 0 \<le> gy \<and> gy < height L))"
proof -
  let ?m = "matrixAt st (raw_tiles rawData)"
  have "js_nth ?m k \<noteq> None" if "0 \<le> k" "k < raw_height rawData" for k
    using valid that by (simp add: schemaValid_def js_nth_def)
  then have "\<exists>g. buildGrid (set (raw_collision rawData)) ?m (raw_width rawData) (raw_height rawData) 0 = Inr g"
    by (rule buildGrid_total)
  then obtain g where "buildGrid (set (raw_collision rawData)) ?m (raw_width rawData) (raw_height rawData) 0 = Inr g" ..
  then show ?thesis
    using goal by (auto simp: Level_constructor_def getGoalPosition_def Let_def)
qed

theorem constructor_fails_iff_goal_out_of_bounds_witness:
  "schemaValid (setGoal test_rawData (4, 0) test_store) test_rawData \<and>
   Level_constructor (setGoal test_rawData (4, 0) test_store) test_rawData = Inl (GoalOutOfBounds 4 0) \<and>
   schemaValid test_store test_rawData \<and>
   (\<exists>L. Level_constructor test_store test_rawData = Inr L \<and> getGoalPosition test_store L = (3, 2))"
proof -
  have v1: "schemaValid (setGoal test_rawData (4, 0) test_store) test_rawData"
    by (simp add: schemaValid_def setGoal_def test_store_def test_rawData_def)
  have g1: "pointAt (setGoal test_rawData (4, 0) test_store) (raw_goal test_rawData) = (4, 0)"
    by (simp add: setGoal_def)
  have v2: "schemaValid test_store test_rawData"
    by (simp add: schemaValid_def test_store_def test_rawData_def)
  have g2: "pointAt test_store (raw_goal test_rawData) = (3, 2)"
    by (simp add: test_store_def test_rawData_def)
  from constructor_fails_iff_goal_out_of_bounds[OF v1 g1]
  have "Level_constructor (setGoal test_rawData (4, 0) test_store) test_rawData = Inl (GoalOutOfBounds 4 0)"
    by (simp add: test_rawData_def)
  moreover from constructor_fails_iff_goal_out_of_bounds[OF v2 g2]
  have "\<exists>L. Level_constructor test_store test_rawData = Inr L \<and> getGoalPosition test_store L = (3, 2)"
    by (auto simp: test_rawData_def)
  ultimately show ?thesis using v1 v2 by simp
qed

section \<open>The goal\<close>


lemma goalOverlap_Fin:
  assumes "pointAt st (goal L) = (gx, gy)"
  shows "goalOverlap st (finiteRect x y w h) L =
           (x < of_int gx * TILE_SIZE + TILE_SIZE \<and> of_int gx * TILE_SIZE < x + w \<and>
            y < of_int gy * TILE_SIZE + TILE_SIZE \<and> of_int gy * TILE_SIZE < y + h)"
  using assms by (simp add: goalOverlap_def js_gt_def finiteRect_def)









text \<open>
  C10. A player rectangle of positive width and height whose right edge lies on the goal
  tile's left edge, whose bottom edge lies on its top edge, whose left edge lies on its right
  edge or whose top edge lies on its bottom edge does not reach the goal: \<open>checkGoal\<close>
  returns false, emits nothing and leaves the Level, \<open>goalReached\<close> included, as it was.
\<close>

theorem checkGoal_edge_contact_is_not_reached:
  assumes goal: "getGoalPosition st L = (gx, gy)"
      and size: "0 < w" "0 < h"
      and touch: "x + w = of_int gx * TILE_SIZE \<or> y + h = of_int gy * TILE_SIZE \<or>
                  x = of_int (gx + 1) * TILE_SIZE \<or> y = of_int (gy + 1) * TILE_SIZE"
  shows "checkGoal st (finiteRect x y w h) L =
           ((False, []), L)"
proof -
  from goal have p: "pointAt st (goal L) = (gx, gy)" by (simp add: getGoalPosition_def)
  from touch have "\<not> goalOverlap st (finiteRect x y w h) L"
    unfolding goalOverlap_Fin[OF p] by (auto simp: algebra_simps)
  then show ?thesis by (simp add: checkGoal_def)
qed


lemma test_goal: "getGoalPosition test_store test_Level = (3, 2)"
  by (simp add: getGoalPosition_def test_store_def test_Level_def)

theorem checkGoal_edge_contact_is_not_reached_witness:
  "getGoalPosition test_store test_Level = (3, 2) \<and>
   (64 :: real) + 32 = of_int 3 * TILE_SIZE \<and>
   checkGoal test_store (finiteRect 64 64 32 32) test_Level = ((False, []), test_Level)"
proof -
  have t: "(64 :: real) + 32 = of_int 3 * TILE_SIZE" by (simp add: TILE_SIZE_def)
  then have "(64 :: real) + 32 = of_int 3 * TILE_SIZE \<or> (64 :: real) + 32 = of_int 2 * TILE_SIZE \<or>
             (64 :: real) = of_int (3 + 1) * TILE_SIZE \<or> (64 :: real) = of_int (2 + 1) * TILE_SIZE"
    by (rule disjI1)
  from checkGoal_edge_contact_is_not_reached[OF test_goal _ _ this] t test_goal
  show ?thesis by simp
qed


section \<open>The arguments of detectCollision\<close>

lemma isSolid_int_constructed:
  assumes "Level_constructor st rawData = Inr L"
  shows "isSolid L (Fin (of_int a)) (Fin (of_int b)) =
           Inr (JBool (0 \<le> a \<and> a < width L \<and> 0 \<le> b \<and> b < height L \<and>
                       collisionGrid L ! nat b ! nat a))"
proof (cases "0 \<le> a \<and> a < width L \<and> 0 \<le> b \<and> b < height L")
  case True
  with isSolid_constructed[OF assms] show ?thesis by simp
next
  case False
  then have "\<not> (0 \<le> real_of_int a \<and> real_of_int a < of_int (width L) \<and>
                0 \<le> real_of_int b \<and> real_of_int b < of_int (height L))"
    by simp
  with isSolid_constructed[OF assms]
  have "isSolid L (Fin (of_int a)) (Fin (of_int b)) = Inr (JBool False)" by blast
  with False show ?thesis by auto
qed

lemma typeof_number: "(typeof v = ''number'') = (\<exists>n. v = JNum n)"
  by (cases v) simp_all

text \<open>
  C7, as amended. \<open>detectCollision\<close> throws one of its two argument errors exactly when
  \<open>playerRect\<close> does not have four fields \<open>x\<close>, \<open>y\<close>, \<open>width\<close>, \<open>height\<close> of type number
  (a \<open>null\<close> or otherwise falsy \<open>playerRect\<close> has none), or \<open>level\<close> is falsy or has no
  callable \<open>isSolid\<close>. The numbers may be NaN or infinite: those are of type number and
  raise no error.
\<close>

theorem detectCollision_throws_iff_field_not_number_or_no_isSolid:
  "(\<exists>level'. detectCollision playerRect level = Some (Inl InvalidPlayerRect, level') \<or>
             detectCollision playerRect level = Some (Inl InvalidLevel, level')) =
   (\<not> (\<exists>x y w h. getProp playerRect ''x'' = JNum x \<and> getProp playerRect ''y'' = JNum y \<and>
                  getProp playerRect ''width'' = JNum w \<and> getProp playerRect ''height'' = JNum h) \<or>
    level = NoLevel \<or> level = NoIsSolid)"
proof (cases "\<exists>x y w h. getProp playerRect ''x'' = JNum x \<and> getProp playerRect ''y'' = JNum y \<and>
                  getProp playerRect ''width'' = JNum w \<and> getProp playerRect ''height'' = JNum h")
  case False
  then have "\<not> truthy playerRect \<or>
         typeof (getProp playerRect ''x'') \<noteq> ''number'' \<or>
         typeof (getProp playerRect ''y'') \<noteq> ''number'' \<or>
         typeof (getProp playerRect ''width'') \<noteq> ''number'' \<or>
         typeof (getProp playerRect ''height'') \<noteq> ''number''"
    unfolding typeof_number by blast
  then have "detectCollision playerRect level = Some (Inl InvalidPlayerRect, level)"
    unfolding detectCollision_def by (rule if_P)
  with False show ?thesis by blast
next
  case True
  then obtain x y w h where f: "getProp playerRect ''x'' = JNum x" "getProp playerRect ''y'' = JNum y"
    "getProp playerRect ''width'' = JNum w" "getProp playerRect ''height'' = JNum h"
    by blast
  have t: "truthy playerRect" using f(1) by (rule getProp_JNum_truthy)
  show ?thesis
  proof (cases level)
    case NoLevel
    then show ?thesis by (simp add: detectCollision_def t f)
  next
    case NoIsSolid
    then show ?thesis by (simp add: detectCollision_def t f)
  next
    case (LevelObject s m)
    then have "\<And>level'. detectCollision playerRect level \<noteq> Some (Inl InvalidPlayerRect, level')"
      and "\<And>level'. detectCollision playerRect level \<noteq> Some (Inl InvalidLevel, level')"
      by (auto simp: detectCollision_def t f Let_def split: option.splits prod.splits sum.splits)
    with True LevelObject show ?thesis by simp
  qed
qed

theorem detectCollision_throws_iff_field_not_number_or_no_isSolid_witness:
  "detectCollision JNull (levelArg test_Level) = Some (Inl InvalidPlayerRect, levelArg test_Level) \<and>
   detectCollision (JObj [(''x'', JNum (Fin 0))]) (levelArg test_Level) =
     Some (Inl InvalidPlayerRect, levelArg test_Level) \<and>
   (\<exists>level'. detectCollision (rectObject (finiteRect 0 0 32 32)) (NoIsSolid :: unit level_arg) =
                Some (Inl InvalidLevel, level'))"
proof -
  have a: "detectCollision JNull (levelArg test_Level) = Some (Inl InvalidPlayerRect, levelArg test_Level)"
    by (simp add: detectCollision_def)
  have b: "detectCollision (JObj [(''x'', JNum (Fin 0))]) (levelArg test_Level) =
            Some (Inl InvalidPlayerRect, levelArg test_Level)"
    by (simp add: detectCollision_def)
  have ok: "\<exists>x y w h. getProp (rectObject (finiteRect 0 0 32 32)) ''x'' = JNum x \<and>
              getProp (rectObject (finiteRect 0 0 32 32)) ''y'' = JNum y \<and>
              getProp (rectObject (finiteRect 0 0 32 32)) ''width'' = JNum w \<and>
              getProp (rectObject (finiteRect 0 0 32 32)) ''height'' = JNum h"
    by (simp add: rectObject_def finiteRect_def)
  have "\<nexists>level'. detectCollision (rectObject (finiteRect 0 0 32 32)) (NoIsSolid :: unit level_arg) =
          Some (Inl InvalidPlayerRect, level')"
    by (simp add: detectCollision_def rectObject_def finiteRect_def)
  with detectCollision_throws_iff_field_not_number_or_no_isSolid
         [of "rectObject (finiteRect 0 0 32 32)" "NoIsSolid :: unit level_arg"] ok
  have "\<exists>level'. detectCollision (rectObject (finiteRect 0 0 32 32)) (NoIsSolid :: unit level_arg) =
                Some (Inl InvalidLevel, level')"
    by blast
  with a b show ?thesis by simp
qed

text \<open>
  C7 as stated requires an error for a non-finite field. With \<open>x = NaN\<close> the call
  returns false, and so it does with \<open>x = Infinity\<close> and a row range that is empty.
\<close>

theorem detectCollision_non_finite_field_counterexample:
  "detectCollision
     (JObj [(''x'', JNum NaN), (''y'', JNum (Fin 0)),
            (''width'', JNum (Fin 32)), (''height'', JNum (Fin 32))])
     (levelArg test_Level) = Some (Inr False, levelArg test_Level) \<and>
   detectCollision
     (JObj [(''x'', JNum PosInf), (''y'', JNum (Fin 0)),
            (''width'', JNum (Fin 32)), (''height'', JNum (Fin (- 64)))])
     (levelArg test_Level) = Some (Inr False, levelArg test_Level)"
  by (simp add: detectCollision_def levelArg_def scanRows.simps scanRow.simps js_le_def TILE_SIZE_def)

section \<open>Floors and tile edges\<close>

lemma floor_div_TILE_SIZE_le: "(\<lfloor>x / TILE_SIZE\<rfloor> \<le> g) = (x < of_int g * TILE_SIZE + TILE_SIZE)"
proof -
  have "(\<lfloor>x / TILE_SIZE\<rfloor> \<le> g) = (x / TILE_SIZE < of_int g + 1)"
    by (rule floor_le_iff)
  also have "\<dots> = (x < of_int g * TILE_SIZE + TILE_SIZE)"
    by (simp add: TILE_SIZE_def field_simps)
  finally show ?thesis .
qed

lemma le_floor_div_TILE_SIZE: "(g \<le> \<lfloor>x / TILE_SIZE\<rfloor>) = (of_int g * TILE_SIZE \<le> x)"
proof -
  have "(g \<le> \<lfloor>x / TILE_SIZE\<rfloor>) = (of_int g \<le> x / TILE_SIZE)"
    by (rule le_floor_iff)
  also have "\<dots> = (of_int g * TILE_SIZE \<le> x)"
    by (simp add: TILE_SIZE_def field_simps)
  finally show ?thesis .
qed

section \<open>The document after construction\<close>

text \<open>
  C9, as amended. The constructor copies \<open>width\<close> and \<open>height\<close> and builds the collision
  grid once, but keeps the document's \<open>tiles\<close> array and \<open>goal\<close> object by reference. After
  the document's tiles have been changed to any matrix \<open>m\<close>, the Level's stored tiles are
  \<open>m\<close>, while \<open>isSolid\<close> still answers from the tiles as they were at construction and
  \<open>getGoalPosition\<close> is as before; after the document's goal object has been changed,
  \<open>getGoalPosition\<close> returns the changed coordinates.
\<close>

theorem constructor_keeps_tiles_and_goal_by_reference:
  assumes "Level_constructor st rawData = Inr L"
  shows "width L = raw_width rawData \<and> height L = raw_height rawData \<and>
         tiles L = raw_tiles rawData \<and> goal L = raw_goal rawData \<and>
         matrixAt (setTiles rawData m st) (tiles L) = m \<and>
         getGoalPosition (setTiles rawData m st) L = getGoalPosition st L \<and>
         getGoalPosition (setGoal rawData g st) L = g \<and>
         (\<forall>x y. 0 \<le> x \<and> x < width L \<and> 0 \<le> y \<and> y < height L \<longrightarrow>
            isSolid L (Fin (of_int x)) (Fin (of_int y)) =
              Inr (JBool (\<exists>t \<in> set (raw_collision rawData). tileAt st (raw_tiles rawData) y x = Some t)))"
proof -
  from assms have f: "width L = raw_width rawData" "height L = raw_height rawData"
    "tiles L = raw_tiles rawData" "goal L = raw_goal rawData"
    by (auto elim!: Level_constructor_Inr)
  have cell: "isSolid L (Fin (of_int x)) (Fin (of_int y)) =
      Inr (JBool (\<exists>t \<in> set (raw_collision rawData). tileAt st (raw_tiles rawData) y x = Some t))"
    if b: "0 \<le> x \<and> x < width L \<and> 0 \<le> y \<and> y < height L" for x y
  proof -
    from isSolid_constructed[OF assms] b
    have "isSolid L (Fin (of_int x)) (Fin (of_int y)) = Inr (JBool (collisionGrid L ! nat y ! nat x))"
      by blast
    moreover from constructed_grid[OF assms] b
    have "collisionGrid L ! nat y ! nat x =
        (\<exists>t \<in> set (raw_collision rawData). tileAt st (tiles L) y x = Some t)"
      by blast
    ultimately show ?thesis by (simp add: f)
  qed
  from f cell show ?thesis
    by (simp add: setTiles_def setGoal_def getGoalPosition_def)
qed

theorem constructor_keeps_tiles_and_goal_by_reference_witness:
  "Level_constructor test_store test_rawData = Inr test_Level \<and>
   matrixAt (setTiles test_rawData [[9, 1, 0, 2], [0, 0, 2, 2], [1, 1, 0, 0]] test_store)
     (tiles test_Level) = [[9, 1, 0, 2], [0, 0, 2, 2], [1, 1, 0, 0]] \<and>
   getGoalPosition (setGoal test_rawData (0, 0) test_store) test_Level = (0, 0) \<and>
   isSolid test_Level (Fin 1) (Fin 0) = Inr (JBool True)"
proof -
  note facts = constructor_keeps_tiles_and_goal_by_reference[OF test_Level_constructed]
  from facts have a: "matrixAt (setTiles test_rawData [[9, 1, 0, 2], [0, 0, 2, 2], [1, 1, 0, 0]] test_store)
     (tiles test_Level) = [[9, 1, 0, 2], [0, 0, 2, 2], [1, 1, 0, 0]]"
    by blast
  from facts have b: "getGoalPosition (setGoal test_rawData (0, 0) test_store) test_Level = (0, 0)"
    by blast
  from facts have "\<forall>x y. 0 \<le> x \<and> x < width test_Level \<and> 0 \<le> y \<and> y < height test_Level \<longrightarrow>
            isSolid test_Level (Fin (of_int x)) (Fin (of_int y)) =
              Inr (JBool (\<exists>t \<in> set (raw_collision test_rawData).
                     tileAt test_store (raw_tiles test_rawData) y x = Some t))"
    by blast
  from this[rule_format, of 1 0] have c: "isSolid test_Level (Fin 1) (Fin 0) = Inr (JBool True)"
    by (simp add: test_Level_def test_rawData_def test_store_def tileAt_def js_nth_def)
  from a b c test_Level_constructed show ?thesis by blast
qed

text \<open>
  C9 as stated fails: writing 9 into \<open>tiles[0][0]\<close> of the source document changes the
  Level's stored tile from 0 to 9, and assigning the document's goal changes what
  \<open>getGoalPosition\<close> returns.
\<close>

theorem mutated_document_changes_level_counterexample:
  "Level_constructor test_store test_rawData = Inr test_Level \<and>
   tileAt test_store (tiles test_Level) 0 0 = Some 0 \<and>
   tileAt (setTiles test_rawData [[9, 1, 0, 2], [0, 0, 2, 2], [1, 1, 0, 0]] test_store)
     (tiles test_Level) 0 0 = Some 9 \<and>
   getGoalPosition test_store test_Level = (3, 2) \<and>
   getGoalPosition (setGoal test_rawData (0, 0) test_store) test_Level = (0, 0)"
  using test_Level_constructed
  by (simp add: tileAt_def setTiles_def setGoal_def getGoalPosition_def js_nth_def
      test_store_def test_rawData_def test_Level_def)

section \<open>Rounding to binary64\<close>

lemma floor_log2_le:
  assumes "r \<noteq> 0" and "\<bar>r\<bar> < 2 powi (k + 1)"
  shows "\<lfloor>log 2 \<bar>r\<bar>\<rfloor> \<le> k"
proof -
  have pos: "0 < \<bar>r\<bar>" using assms(1) by simp
  have "(2::real) powr real_of_int (k + 1) = 2 powi (k + 1)"
    by (rule powr_real_of_int') simp_all
  with assms(2) have "\<bar>r\<bar> < 2 powr real_of_int (k + 1)" by simp
  then have "log 2 \<bar>r\<bar> < real_of_int (k + 1)"
    using pos by (simp add: log_less_iff)
  then have "\<lfloor>log 2 \<bar>r\<bar>\<rfloor> < k + 1" by (simp only: floor_less_iff)
  then show ?thesis by simp
qed

lemma floor_log2_eq:
  assumes "2 powi k \<le> \<bar>r\<bar>" and "\<bar>r\<bar> < 2 powi (k + 1)"
  shows "\<lfloor>log 2 \<bar>r\<bar>\<rfloor> = k"
proof -
  have "(0::real) < 2 powi k" by simp
  with assms(1) have pos: "0 < \<bar>r\<bar>" by linarith
  have p: "(2::real) powr real_of_int j = 2 powi j" for j
    by (rule powr_real_of_int') simp_all
  have "2 powr real_of_int k \<le> \<bar>r\<bar> \<and> \<bar>r\<bar> < 2 powr real_of_int (k + 1)"
    using assms by (simp only: p)
  moreover have "(\<lfloor>log 2 \<bar>r\<bar>\<rfloor> = k) =
      (2 powr real_of_int k \<le> \<bar>r\<bar> \<and> \<bar>r\<bar> < 2 powr real_of_int (k + 1))"
    by (rule floor_log_eq_powr_iff) (use pos in simp_all)
  ultimately show ?thesis by blast
qed

lemma round_even_of_int: "round_even (of_int n) = n"
  by (simp add: round_even_def)

lemma round64_binary64:
  assumes "binary64 r"
  shows "round64 r = Fin r"
proof (cases "r = 0")
  case True
  then show ?thesis by (simp add: round64_def)
next
  case False
  from assms obtain m e where m: "\<bar>m\<bar> < 2 ^ 53" and e: "- 1074 \<le> e" "e \<le> 971"
    and r: "r = of_int m * 2 powi e"
    unfolding binary64_def by blast
  have "\<bar>r\<bar> = of_int \<bar>m\<bar> * 2 powi e" by (simp add: r abs_mult)
  also have "\<dots> < 2 ^ 53 * 2 powi e"
  proof -
    have "real_of_int \<bar>m\<bar> < 2 ^ 53" using m by (metis of_int_less_numeral_power_cancel_iff)
    then show ?thesis by simp
  qed
  also have "\<dots> = 2 powi (52 + e + 1)"
    by (simp add: power_int_add)
  finally have lt: "\<bar>r\<bar> < 2 powi (52 + e + 1)" .
  have "\<lfloor>log 2 \<bar>r\<bar>\<rfloor> \<le> 52 + e" using False lt by (rule floor_log2_le)
  then have u: "ulp_exponent r \<le> e" using e by (simp add: ulp_exponent_def)
  define u where "u = ulp_exponent r"
  define n where "n = nat (e - u)"
  have eu: "e = u + int n" using u by (simp add: n_def u_def)
  have q: "r / 2 powi u = of_int (m * 2 ^ n)"
    by (simp add: r eu power_int_add)
  have v: "of_int (round_even (r / 2 powi u)) * 2 powi u = r"
    unfolding q round_even_of_int by (simp add: r eu power_int_add)
  have "2 powi (52 + e + 1) \<le> (2::real) powi 1024"
    by (rule power_int_increasing) (use e in simp_all)
  with lt have "\<bar>r\<bar> < 2 ^ 1024" by simp
  with False v show ?thesis
    by (simp add: round64_def Let_def u_def[symmetric])
qed

lemma binary64_of_int: "\<bar>n\<bar> < 2 ^ 53 \<Longrightarrow> binary64 (of_int n)"
  unfolding binary64_def by (rule exI[of _ n], rule exI[of _ 0]) simp

lemma binary64_2_53: "binary64 (2 ^ 53)" and binary64_neg_2_53: "binary64 (- (2 ^ 53))"
  unfolding binary64_def
  by (rule exI[of _ "2 ^ 52"], rule exI[of _ 1], simp)
     (rule exI[of _ "- (2 ^ 52)"], rule exI[of _ 1], simp)

lemma round64_of_int: "\<bar>n\<bar> \<le> 2 ^ 53 \<Longrightarrow> round64 (of_int n) = Fin (of_int n)"
proof -
  assume a: "\<bar>n\<bar> \<le> 2 ^ 53"
  consider "\<bar>n\<bar> < 2 ^ 53" | "n = 2 ^ 53" | "n = - (2 ^ 53)" using a by linarith
  then have "binary64 (of_int n)"
  proof cases
    case 1 then show ?thesis by (rule binary64_of_int)
  next
    case 2 then show ?thesis using binary64_2_53 by simp
  next
    case 3 then show ?thesis using binary64_neg_2_53 by simp
  qed
  then show ?thesis by (rule round64_binary64)
qed

lemma round64_eq:
  assumes "r \<noteq> 0" and "2 powi k \<le> \<bar>r\<bar>" and "\<bar>r\<bar> < 2 powi (k + 1)"
      and "u = max (k - 52) (- 1074)"
      and "round_even (r / 2 powi u) = n"
      and "\<bar>real_of_int n * 2 powi u\<bar> < 2 ^ 1024"
  shows "round64 r = Fin (of_int n * 2 powi u)"
proof -
  have "\<lfloor>log 2 \<bar>r\<bar>\<rfloor> = k" using assms(2,3) by (rule floor_log2_eq)
  then have "ulp_exponent r = u" by (simp add: ulp_exponent_def assms(4))
  with assms(1,5,6) show ?thesis
    by (simp add: round64_def Let_def)
qed

lemma round64_stall: "round64 (2 ^ 53 + 1) = Fin (2 ^ 53)"
proof -
  have q: "(2 ^ 53 + 1 :: real) / 2 powi 1 = of_int (2 ^ 52) + 1 / 2"
    by simp
  have n: "round_even ((2 ^ 53 + 1 :: real) / 2 powi 1) = 2 ^ 52"
    unfolding q by (simp add: round_even_def)
  have "round64 (2 ^ 53 + 1) = Fin (of_int (2 ^ 52) * 2 powi 1)"
  proof (rule round64_eq[where k = 53])
    show "round_even ((2 ^ 53 + 1) / 2 powi 1) = 2 ^ 52" by (rule n)
  qed simp_all
  then show ?thesis by simp
qed

section \<open>detectCollision in binary64 arithmetic\<close>

text \<open>Where the exact result is representable, nothing is rounded.\<close>

lemma js_add64_exact: "binary64 (a + b) \<Longrightarrow> js_add64 (Fin a) (Fin b) = Fin (a + b)"
  by (simp add: round64_binary64)

lemma tileIndex_exact:
  "binary64 (x / TILE_SIZE) \<Longrightarrow> tileIndex (Fin x) = Fin (of_int \<lfloor>x / TILE_SIZE\<rfloor>)"
  by (simp add: tileIndex_def round64_binary64)

lemma js_inc64: "- (2 ^ 53) \<le> a \<Longrightarrow> a < 2 ^ 53 \<Longrightarrow>
  js_add64 (Fin (of_int a)) (Fin 1) = Fin (of_int (a + 1))"
proof -
  assume "- (2 ^ 53) \<le> a" "a < 2 ^ 53"
  then have "\<bar>a + 1\<bar> \<le> 2 ^ 53" by simp
  then have "round64 (of_int (a + 1)) = Fin (of_int (a + 1))" by (rule round64_of_int)
  then show ?thesis by simp
qed

lemma scanRow64_pure:
  assumes pure: "\<And>a b. m s (Fin (of_int a)) (Fin (of_int b)) =
                   (Inr (p (Fin (of_int a)) (Fin (of_int b))), s)"
      and hi: "b < 2 ^ 53"
  shows "- (2 ^ 53) \<le> a \<Longrightarrow>
         scanRow64 m (Fin (of_int a)) (Fin (of_int b)) (Fin (of_int c)) s =
           Some (Inr (\<exists>t\<in>{a..b}. truthy (p (Fin (of_int t)) (Fin (of_int c)))), s)"
proof (induction "nat (b + 1 - a)" arbitrary: a)
  case 0
  then have "b < a" by simp
  then show ?case
    by (subst scanRow64.simps) (simp add: js_le_Fin)
next
  case (Suc n)
  then have le: "a \<le> b" and n: "n = nat (b + 1 - (a + 1))"
    by simp_all
  from Suc.prems have lo: "- (2 ^ 53) \<le> a + 1" by simp
  from le hi have "a < 2 ^ 53" by simp
  with Suc.prems have inc: "js_add64 (Fin (of_int a)) (Fin 1) = Fin (of_int (a + 1))"
    by (simp only: js_inc64)
  note IH = Suc.hyps(1)[OF n lo]
  show ?case
    by (subst scanRow64.simps)
       (simp add: js_le_Fin le pure IH inc bex_atLeastAtMost_first[OF le]
             del: js_add64.simps of_int_add)
qed

lemma scanRows64_pure:
  assumes pure: "\<And>a b. m s (Fin (of_int a)) (Fin (of_int b)) =
                   (Inr (p (Fin (of_int a)) (Fin (of_int b))), s)"
      and lo: "- (2 ^ 53) \<le> a" and hi: "b < 2 ^ 53" and hi': "d < 2 ^ 53"
  shows "- (2 ^ 53) \<le> c \<Longrightarrow>
         scanRows64 m (Fin (of_int a)) (Fin (of_int b)) (Fin (of_int c)) (Fin (of_int d)) s =
           Some (Inr (\<exists>u\<in>{c..d}. \<exists>t\<in>{a..b}. truthy (p (Fin (of_int t)) (Fin (of_int u)))), s)"
proof (induction "nat (d + 1 - c)" arbitrary: c)
  case 0
  then have "d < c" by simp
  then show ?case
    by (subst scanRows64.simps) (simp add: js_le_Fin)
next
  case (Suc n)
  then have le: "c \<le> d" and n: "n = nat (d + 1 - (c + 1))"
    by simp_all
  from Suc.prems have lo': "- (2 ^ 53) \<le> c + 1" by simp
  from le hi' have "c < 2 ^ 53" by simp
  with Suc.prems have inc: "js_add64 (Fin (of_int c)) (Fin 1) = Fin (of_int (c + 1))"
    by (simp only: js_inc64)
  note IH = Suc.hyps(1)[OF n lo']
  show ?case
    by (subst scanRows64.simps)
       (simp add: js_le_Fin le scanRow64_pure[where m = m and p = p and s = s, OF pure hi lo]
             IH inc bex_atLeastAtMost_first[OF le] del: js_add64.simps of_int_add)
qed

lemma detectCollision64_pure:
  assumes px: "getProp (rectObj s) ''x'' = JNum (Fin x)"
      and py: "getProp (rectObj s) ''y'' = JNum (Fin y)"
      and pw: "getProp (rectObj s) ''width'' = JNum (Fin w)"
      and ph: "getProp (rectObj s) ''height'' = JNum (Fin h)"
      and ix: "tileIndex (Fin x) = Fin (of_int startX)"
              "tileIndex (js_add64 (Fin x) (Fin w)) = Fin (of_int endX)"
      and iy: "tileIndex (Fin y) = Fin (of_int startY)"
              "tileIndex (js_add64 (Fin y) (Fin h)) = Fin (of_int endY)"
      and bx: "- (2 ^ 53) \<le> startX" "endX < 2 ^ 53"
      and by': "- (2 ^ 53) \<le> startY" "endY < 2 ^ 53"
      and pure: "\<And>a b. m s (Fin (of_int a)) (Fin (of_int b)) =
                   (Inr (p (Fin (of_int a)) (Fin (of_int b))), s)"
  shows "detectCollision64 (LevelCallable m) s =
           Some (Inr (\<exists>ty\<in>{startY..endY}. \<exists>tx\<in>{startX..endX}.
                        truthy (p (Fin (of_int tx)) (Fin (of_int ty)))), s)"
proof -
  have t: "truthy (rectObj s)" using px by (rule getProp_JNum_truthy)
  show ?thesis
    unfolding detectCollision64_def
    by (simp add: t px py pw ph ix iy Let_def
          scanRows64_pure[where m = m and p = p and s = s, OF pure bx by'(2) by'(1)]
          del: js_add64.simps)
qed

text \<open>
  C1, as amended. Let \<open>playerRect\<close> have finite \<open>x\<close>, \<open>y\<close>, \<open>width\<close>, \<open>height\<close>, and let
  the four tile indices \<open>floor(x/T)\<close>, \<open>floor((x+width)/T)\<close>, \<open>floor(y/T)\<close>,
  \<open>floor((y+height)/T)\<close>, as the program computes them in binary64 arithmetic (the sums
  rounded), be finite and lie in \<open>[-2^53, 2^53)\<close>. Let \<open>isSolid\<close>, called on a tile with
  integer indices, return the boolean \<open>solid tx ty\<close>, throw nothing and change nothing. Then
  \<open>detectCollision\<close> returns, and returns true exactly when some tile of the inclusive range
  between those indices is solid; \<open>T = TILE_SIZE = 32\<close>.
\<close>

theorem detectCollision64_iff_solid_tile_in_range:
  assumes px: "getProp (rectObj s) ''x'' = JNum (Fin x)"
      and py: "getProp (rectObj s) ''y'' = JNum (Fin y)"
      and pw: "getProp (rectObj s) ''width'' = JNum (Fin w)"
      and ph: "getProp (rectObj s) ''height'' = JNum (Fin h)"
      and ix: "tileIndex (Fin x) = Fin (of_int startX)"
              "tileIndex (js_add64 (Fin x) (Fin w)) = Fin (of_int endX)"
      and iy: "tileIndex (Fin y) = Fin (of_int startY)"
              "tileIndex (js_add64 (Fin y) (Fin h)) = Fin (of_int endY)"
      and bx: "- (2 ^ 53) \<le> startX" "endX < 2 ^ 53"
      and by': "- (2 ^ 53) \<le> startY" "endY < 2 ^ 53"
      and pure: "\<And>tx ty. m s (Fin (of_int tx)) (Fin (of_int ty)) = (Inr (JBool (solid tx ty)), s)"
  shows "TILE_SIZE = 32 \<and>
         detectCollision64 (LevelCallable m) s =
           Some (Inr (\<exists>tx\<in>{startX..endX}. \<exists>ty\<in>{startY..endY}. solid tx ty), s)"
proof -
  let ?p = "\<lambda>a b. case a of
                     Fin r \<Rightarrow> (case b of Fin q \<Rightarrow> JBool (solid \<lfloor>r\<rfloor> \<lfloor>q\<rfloor>) | _ \<Rightarrow> JUndefined)
                   | _ \<Rightarrow> JUndefined"
  have sw: "(\<exists>ty\<in>{startY..endY}. \<exists>tx\<in>{startX..endX}.
                  truthy (?p (Fin (of_int tx)) (Fin (of_int ty)))) =
            (\<exists>tx\<in>{startX..endX}. \<exists>ty\<in>{startY..endY}. solid tx ty)"
    by auto
  have "detectCollision64 (LevelCallable m) s =
           Some (Inr (\<exists>ty\<in>{startY..endY}. \<exists>tx\<in>{startX..endX}.
                        truthy (?p (Fin (of_int tx)) (Fin (of_int ty)))), s)"
    by (rule detectCollision64_pure[where p = ?p, OF px py pw ph ix iy bx by'])
       (simp add: pure)
  then show ?thesis
    by (simp only: sw) (simp add: TILE_SIZE_def)
qed

text \<open>Integers below \<open>2^53\<close> in magnitude are added and divided by 32 without rounding.\<close>

lemma binary64_of_int_div_TILE_SIZE: "\<bar>n\<bar> < 2 ^ 53 \<Longrightarrow> binary64 (of_int n / TILE_SIZE)"
  unfolding binary64_def TILE_SIZE_def
  by (rule exI[of _ n], rule exI[of _ "- 5"]) (simp add: power_int_minus field_simps)

lemma tileIndex_of_int:
  "\<bar>n\<bar> < 2 ^ 53 \<Longrightarrow> tileIndex (Fin (of_int n)) = Fin (of_int (n div 32))"
proof -
  assume "\<bar>n\<bar> < 2 ^ 53"
  then have "tileIndex (Fin (of_int n)) = Fin (of_int \<lfloor>of_int n / TILE_SIZE\<rfloor>)"
    by (intro tileIndex_exact binary64_of_int_div_TILE_SIZE)
  also have "\<lfloor>real_of_int n / TILE_SIZE\<rfloor> = n div 32"
    unfolding TILE_SIZE_def using floor_divide_of_int_eq[of n 32, where ?'a = real] by simp
  finally show ?thesis .
qed

lemma js_add64_of_int:
  "\<bar>a + b\<bar> \<le> 2 ^ 53 \<Longrightarrow> js_add64 (Fin (of_int a)) (Fin (of_int b)) = Fin (of_int (a + b))"
  using round64_of_int[of "a + b"] by simp

text \<open>
  At \<open>2^53\<close> the loop counter no longer advances, since \<open>2^53 + 1\<close> is rounded back to
  \<open>2^53\<close>: a row that starts there with a tile that is not solid is scanned without end.
\<close>

lemma round64_stall_numeral: "round64 9007199254740993 = Fin 9007199254740992"
  using round64_stall by simp

lemma scanRow64_stall:
  assumes no: "\<And>s. m s (Fin (2 ^ 53)) ty = (Inr (JBool False), s)"
      and le: "js_le (Fin (2 ^ 53)) endX"
  shows "scanRow64 m (Fin (2 ^ 53)) endX ty s = None"
proof (rule ccontr)
  assume "scanRow64 m (Fin (2 ^ 53)) endX ty s \<noteq> None"
  then obtain res where res: "scanRow64 m (Fin (2 ^ 53)) endX ty s = Some res" by auto
  have "\<not> (m = m \<and> Fin (2 ^ 53) = Fin (2 ^ 53) \<and> endX = endX \<and> ty = ty)"
  proof (rule scanRow64.raw_induct
      [where P = "\<lambda>m' tx' endX' ty' s' res'.
                    \<not> (m' = m \<and> tx' = Fin (2 ^ 53) \<and> endX' = endX \<and> ty' = ty)",
       OF _ res])
    fix f :: "'a method64 \<Rightarrow> jsnum \<Rightarrow> jsnum \<Rightarrow> jsnum \<Rightarrow> 'a world \<Rightarrow> ((error + bool) \<times> 'a world) option"
    fix m' :: "'a method64"
    fix tx' endX' ty' s' res'
    assume hyp: "\<And>m'' a b c s'' y. f m'' a b c s'' = Some y \<Longrightarrow>
                   \<not> (m'' = m \<and> a = Fin (2 ^ 53) \<and> b = endX \<and> c = ty)"
      and body: "(if js_le tx' endX'
                  then case m' s' tx' ty' of
                         (Inl e, s'') \<Rightarrow> Some (Inl e, s'')
                       | (Inr v, s'') \<Rightarrow>
                           if truthy v then Some (Inr True, s'')
                           else f m' (js_add64 tx' (Fin 1)) endX' ty' s''
                  else Some (Inr False, s')) = Some res'"
    show "\<not> (m' = m \<and> tx' = Fin (2 ^ 53) \<and> endX' = endX \<and> ty' = ty)"
    proof
      assume eq: "m' = m \<and> tx' = Fin (2 ^ 53) \<and> endX' = endX \<and> ty' = ty"
      with body le no[of s'] have "f m (Fin (2 ^ 53)) endX ty s' = Some res'"
        by (simp add: round64_stall_numeral)
      from hyp[OF this] show False by simp
    qed
  qed
  then show False by simp
qed


lemma scanRows64_stall:
  assumes no: "\<And>s. m s (Fin (2 ^ 53)) ty = (Inr (JBool False), s)"
      and le: "js_le (Fin (2 ^ 53)) endX" and row: "js_le ty endY"
  shows "scanRows64 m (Fin (2 ^ 53)) endX ty endY s = None"
  by (subst scanRows64.simps) (simp only: row if_True scanRow64_stall[where m = m and ty = ty, OF no le] option.case)

theorem detectCollision64_iff_solid_tile_in_range_witness:
  "detectCollision64
     (LevelCallable
        (\<lambda>s tx ty. (Inr (JBool (tx = Fin 2 \<and> ty = Fin 2 \<or> tx = Fin 3 \<and> ty = Fin 2)), s)))
     \<lparr> rectObj = JObj [(''x'', JNum (Fin 48)), (''y'', JNum (Fin 48)),
                       (''width'', JNum (Fin 32)), (''height'', JNum (Fin 32))],
       others = () \<rparr> =
   Some (Inr True,
         \<lparr> rectObj = JObj [(''x'', JNum (Fin 48)), (''y'', JNum (Fin 48)),
                           (''width'', JNum (Fin 32)), (''height'', JNum (Fin 32))],
           others = () \<rparr>)"
proof -
  let ?s = "\<lparr> rectObj = JObj [(''x'', JNum (Fin 48)), (''y'', JNum (Fin 48)),
                       (''width'', JNum (Fin 32)), (''height'', JNum (Fin 32))],
              others = () \<rparr>"
  have i1: "tileIndex (Fin 48) = Fin (of_int 1)"
    using tileIndex_of_int[of 48] by simp
  have sum: "js_add64 (Fin 48) (Fin 32) = Fin 80"
    using js_add64_of_int[of 48 32] by simp
  have i2: "tileIndex (js_add64 (Fin 48) (Fin 32)) = Fin (of_int 2)"
    unfolding sum using tileIndex_of_int[of 80] by simp
  have ex: "\<exists>tx\<in>{1..2::int}. \<exists>ty\<in>{1..2::int}. tx = 2 \<and> ty = 2 \<or> tx = 3 \<and> ty = 2"
    by (intro bexI[of _ 2]) simp_all
  have "detectCollision64
     (LevelCallable
        (\<lambda>s tx ty. (Inr (JBool (tx = Fin 2 \<and> ty = Fin 2 \<or> tx = Fin 3 \<and> ty = Fin 2)), s))) ?s =
     Some (Inr (\<exists>tx\<in>{1..2::int}. \<exists>ty\<in>{1..2::int}. tx = 2 \<and> ty = 2 \<or> tx = 3 \<and> ty = 2), ?s)"
    using detectCollision64_iff_solid_tile_in_range
      [where s = ?s and x = 48 and y = 48 and w = 32 and h = 32
         and startX = 1 and endX = 2 and startY = 1 and endY = 2
         and solid = "\<lambda>tx ty. tx = 2 \<and> ty = 2 \<or> tx = 3 \<and> ty = 2", OF _ _ _ _ i1 i2 i1 i2]
    by simp
  with ex show ?thesis by simp
qed

text \<open>
  C1 as stated fails for \<open>x = 2^58\<close>, \<open>width = 64\<close>, \<open>y = 0\<close>, \<open>height = 32\<close> and a level
  whose only solid tile is \<open>(2^53 + 2, 0)\<close>: that tile lies in the range
  \<open>[2^53, 2^53 + 2] \<times> [0, 1]\<close>, so the claim has the call return true, but the call does
  not return.
\<close>

theorem detectCollision64_stalls_counterexample:
  "detectCollision64
     (LevelCallable (\<lambda>s tx ty. (Inr (JBool (tx = Fin (2 ^ 53 + 2) \<and> ty = Fin 0)), s)))
     \<lparr> rectObj = JObj [(''x'', JNum (Fin (2 ^ 58))), (''y'', JNum (Fin 0)),
                       (''width'', JNum (Fin 64)), (''height'', JNum (Fin 32))],
       others = () \<rparr> = None \<and>
   tileIndex (Fin (2 ^ 58)) = Fin (2 ^ 53) \<and>
   tileIndex (js_add64 (Fin (2 ^ 58)) (Fin 64)) = Fin (2 ^ 53 + 2) \<and>
   tileIndex (Fin 0) = Fin 0 \<and>
   tileIndex (js_add64 (Fin 0) (Fin 32)) = Fin 1"
proof -
  have b1: "binary64 (2 ^ 58 / TILE_SIZE)"
    unfolding binary64_def TILE_SIZE_def
    by (rule exI[of _ "2 ^ 52"], rule exI[of _ 1]) simp
  have b2: "binary64 (2 ^ 58 + 64)"
    unfolding binary64_def
    by (rule exI[of _ "2 ^ 52 + 1"], rule exI[of _ 6]) simp
  have b3: "binary64 ((2 ^ 58 + 64) / TILE_SIZE)"
    unfolding binary64_def TILE_SIZE_def
    by (rule exI[of _ "2 ^ 52 + 1"], rule exI[of _ 1]) simp
  have i1: "tileIndex (Fin (2 ^ 58)) = Fin (2 ^ 53)"
    using tileIndex_exact[OF b1] by (simp add: TILE_SIZE_def)
  have sum: "js_add64 (Fin (2 ^ 58)) (Fin 64) = Fin (2 ^ 58 + 64)"
    by (rule js_add64_exact[OF b2])
  have i2: "tileIndex (js_add64 (Fin (2 ^ 58)) (Fin 64)) = Fin (2 ^ 53 + 2)"
    unfolding sum using tileIndex_exact[OF b3] by (simp add: TILE_SIZE_def)
  have i3: "tileIndex (Fin 0) = Fin 0"
    using tileIndex_of_int[of 0] by simp
  have i4: "tileIndex (js_add64 (Fin 0) (Fin 32)) = Fin 1"
    using js_add64_of_int[of 0 32] tileIndex_of_int[of 32] by simp
  let ?m = "\<lambda>(s :: unit world) tx ty. (Inr (JBool (tx = Fin (2 ^ 53 + 2) \<and> ty = Fin 0)), s)"
  have "scanRows64 ?m (Fin (2 ^ 53)) (Fin (2 ^ 53 + 2)) (Fin 0) (Fin 1) s = None" for s
    by (rule scanRows64_stall) (simp_all add: js_le_Fin)
  then have "detectCollision64 (LevelCallable ?m)
     \<lparr> rectObj = JObj [(''x'', JNum (Fin (2 ^ 58))), (''y'', JNum (Fin 0)),
                       (''width'', JNum (Fin 64)), (''height'', JNum (Fin 32))],
       others = () \<rparr> = None"
    unfolding detectCollision64_def
    by (simp add: i1[simplified] i2[simplified] i3[simplified] i4[simplified] Let_def)
  with i1 i2 i3 i4 show ?thesis by blast
qed

section \<open>What detectCollision leaves behind\<close>

lemma scanRow64_frame_aux:
  assumes "scanRow64 m tx endX ty s = Some res"
  shows "(\<forall>s x y. snd (m s x y) = s) \<longrightarrow> snd res = s"
proof (rule scanRow64.raw_induct
    [where P = "\<lambda>m tx endX ty s res. (\<forall>s x y. snd (m s x y) = s) \<longrightarrow> snd res = s", OF _ assms])
  fix f :: "'a method64 \<Rightarrow> jsnum \<Rightarrow> jsnum \<Rightarrow> jsnum \<Rightarrow> 'a world \<Rightarrow> ((error + bool) \<times> 'a world) option"
  fix m :: "'a method64"
  fix tx endX ty s res
  assume hyp: "\<And>m' a b c s' y. f m' a b c s' = Some y \<Longrightarrow>
                 (\<forall>s x y. snd (m' s x y) = s) \<longrightarrow> snd y = s'"
    and body: "(if js_le tx endX
                then case m s tx ty of
                       (Inl e, s') \<Rightarrow> Some (Inl e, s')
                     | (Inr v, s') \<Rightarrow>
                         if truthy v then Some (Inr True, s')
                         else f m (js_add64 tx (Fin 1)) endX ty s'
                else Some (Inr False, s)) = Some res"
  show "(\<forall>s x y. snd (m s x y) = s) \<longrightarrow> snd res = s"
  proof
    assume pure: "\<forall>s x y. snd (m s x y) = s"
    have fr: "b = s" if "m s tx ty = (a, b)" for a b
      using pure[rule_format, of s tx ty] that by simp
    have IH: "snd y = s'" if "f m tx' endX' ty' s' = Some y" for tx' endX' ty' s' y
      using hyp[OF that] pure by blast
    from body show "snd res = s"
      by (auto split: if_splits prod.splits sum.splits dest!: fr dest: IH)
  qed
qed

lemma scanRow64_frame:
  assumes "scanRow64 m tx endX ty s = Some res" and "\<And>s x y. snd (m s x y) = s"
  shows "snd res = s"
  using scanRow64_frame_aux[OF assms(1)] assms(2) by blast

lemma scanRows64_frame_aux:
  assumes "scanRows64 m startX endX ty endY s = Some res"
  shows "(\<forall>s x y. snd (m s x y) = s) \<longrightarrow> snd res = s"
proof (rule scanRows64.raw_induct
    [where P = "\<lambda>m startX endX ty endY s res. (\<forall>s x y. snd (m s x y) = s) \<longrightarrow> snd res = s",
     OF _ assms])
  fix f :: "'a method64 \<Rightarrow> jsnum \<Rightarrow> jsnum \<Rightarrow> jsnum \<Rightarrow> jsnum \<Rightarrow> 'a world \<Rightarrow> ((error + bool) \<times> 'a world) option"
  fix m :: "'a method64"
  fix startX endX ty endY s res
  assume hyp: "\<And>m' a b c d s' y. f m' a b c d s' = Some y \<Longrightarrow>
                 (\<forall>s x y. snd (m' s x y) = s) \<longrightarrow> snd y = s'"
    and body: "(if js_le ty endY
                then case scanRow64 m startX endX ty s of
                       None \<Rightarrow> None
                     | Some (Inl e, s') \<Rightarrow> Some (Inl e, s')
                     | Some (Inr found, s') \<Rightarrow>
                         if found then Some (Inr True, s')
                         else f m startX endX (js_add64 ty (Fin 1)) endY s'
                else Some (Inr False, s)) = Some res"
  show "(\<forall>s x y. snd (m s x y) = s) \<longrightarrow> snd res = s"
  proof
    assume pure: "\<forall>s x y. snd (m s x y) = s"
    have fr: "b = s" if "scanRow64 m startX endX ty s = Some (a, b)" for a b
      using scanRow64_frame[OF that] pure by simp
    have IH: "snd y = s'" if "f m startX' endX' ty' endY' s' = Some y"
      for startX' endX' ty' endY' s' y
      using hyp[OF that] pure by blast
    from body show "snd res = s"
      by (auto split: if_splits option.splits prod.splits sum.splits dest!: fr dest: IH)
  qed
qed

lemma scanRows64_frame:
  assumes "scanRows64 m startX endX ty endY s = Some res" and "\<And>s x y. snd (m s x y) = s"
  shows "snd res = s"
  using scanRows64_frame_aux[OF assms(1)] assms(2) by blast

lemma detectCollision64_frame:
  assumes "detectCollision64 level s = Some (result, s')"
      and "\<And>m s x y. level = LevelCallable m \<Longrightarrow> snd (m s x y) = s"
  shows "s' = s"
proof (cases level)
  case (LevelCallable m)
  have fr: "b = s" if "scanRows64 m startX endX ty endY s = Some (a, b)" for a b startX endX ty endY
    using scanRows64_frame[OF that assms(2)[OF LevelCallable]] by simp
  from assms(1) show ?thesis
    unfolding detectCollision64_def Let_def LevelCallable
    by (auto split: if_splits option.splits prod.splits sum.splits dest!: fr)
qed (use assms(1) in \<open>auto simp: detectCollision64_def Let_def split: if_splits\<close>)

text \<open>
  C8. \<open>detectCollision\<close> changes neither argument. The state of a call holds the
  \<open>playerRect\<close> object, the store with the tiles and the goal object, and the Level with its
  tiles reference, collision grid, goal and \<open>goalReached\<close>; every \<open>isSolid\<close> call is handed
  that state and could change any of it. Whatever \<open>playerRect\<close> is, a call on a Level that
  returns, with a boolean or with an exception, leaves all three exactly as they were.
\<close>

theorem detectCollision64_leaves_arguments_unchanged:
  assumes "detectCollision64 (LevelCallable Level_isSolid64) s = Some (result, s')"
  shows "rectObj s' = rectObj s \<and> fst (others s') = fst (others s) \<and>
         snd (others s') = snd (others s)"
proof -
  have "s' = s"
    using assms by (rule detectCollision64_frame) (simp add: Level_isSolid64_def)
  then show ?thesis by simp
qed

theorem detectCollision64_leaves_arguments_unchanged_witness:
  "detectCollision64 (LevelCallable Level_isSolid64)
     \<lparr> rectObj = rectObject (finiteRect 48 48 32 32), others = (test_store, test_Level) \<rparr> =
   Some (Inr True,
     \<lparr> rectObj = rectObject (finiteRect 48 48 32 32), others = (test_store, test_Level) \<rparr>)"
proof -
  let ?s = "\<lparr> rectObj = rectObject (finiteRect 48 48 32 32), others = (test_store, test_Level) \<rparr>"
  let ?p = "\<lambda>tx ty. case isSolid test_Level tx ty of Inr v \<Rightarrow> v | Inl e \<Rightarrow> JUndefined"
  have i1: "tileIndex (Fin 48) = Fin (of_int 1)"
    using tileIndex_of_int[of 48] by simp
  have sum: "js_add64 (Fin 48) (Fin 32) = Fin 80"
    using js_add64_of_int[of 48 32] by simp
  have i2: "tileIndex (js_add64 (Fin 48) (Fin 32)) = Fin (of_int 2)"
    unfolding sum using tileIndex_of_int[of 80] by simp
  note solid = isSolid_int_constructed[OF test_Level_constructed]
  have "detectCollision64 (LevelCallable Level_isSolid64) ?s =
          Some (Inr (\<exists>ty\<in>{1..2::int}. \<exists>tx\<in>{1..2::int}.
                       truthy (?p (Fin (of_int tx)) (Fin (of_int ty)))), ?s)"
    by (rule detectCollision64_pure[where p = ?p and x = 48 and y = 48 and w = 32 and h = 32,
          OF _ _ _ _ i1 i2 i1 i2])
       (simp_all add: rectObject_def finiteRect_def Level_isSolid64_def solid)
  moreover have "\<exists>ty\<in>{1..2::int}. \<exists>tx\<in>{1..2::int}.
                       truthy (?p (Fin (of_int tx)) (Fin (of_int ty)))"
  proof -
    have v: "isSolid test_Level (Fin 2) (Fin 1) = Inr (JBool True)"
      using solid[of 2 1] by (simp add: test_Level_def)
    show ?thesis
      by (rule bexI[of _ 1], rule bexI[of _ 2]) (simp_all add: v)
  qed
  ultimately obtain s' where
    e: "detectCollision64 (LevelCallable Level_isSolid64) ?s = Some (Inr True, s')" and s': "s' = ?s"
    by simp
  from detectCollision64_leaves_arguments_unchanged[OF e]
  have "rectObj s' = rectObj ?s \<and> others s' = others ?s"
    by (simp add: prod_eq_iff)
  then have "s' = ?s" by simp
  with e show ?thesis by simp
qed

section \<open>checkGoal in binary64 arithmetic\<close>

text \<open>The edges of a goal tile whose coordinates are below \<open>2^47\<close> are computed exactly.\<close>

lemma round64_goal_edge:
  assumes "\<bar>g\<bar> < 2 ^ 47"
  shows "round64 (of_int g * TILE_SIZE) = Fin (of_int g * TILE_SIZE)"
    and "js_add64 (Fin (of_int g * TILE_SIZE)) (Fin TILE_SIZE) = Fin (of_int g * TILE_SIZE + TILE_SIZE)"
proof -
  from assms have a: "\<bar>g * 32\<bar> \<le> 2 ^ 53" and b: "\<bar>g * 32 + 32\<bar> \<le> 2 ^ 53" by simp_all
  from round64_of_int[OF a] show "round64 (of_int g * TILE_SIZE) = Fin (of_int g * TILE_SIZE)"
    by (simp add: TILE_SIZE_def)
  from round64_of_int[OF b]
  show "js_add64 (Fin (of_int g * TILE_SIZE)) (Fin TILE_SIZE) = Fin (of_int g * TILE_SIZE + TILE_SIZE)"
    by (simp add: TILE_SIZE_def)
qed

lemma goalOverlap64_Fin:
  assumes p: "pointAt st (goal L) = (gx, gy)"
      and bx: "\<bar>gx\<bar> < 2 ^ 47" and by': "\<bar>gy\<bar> < 2 ^ 47"
      and sx: "js_add64 (Fin x) (Fin w) = Fin sx"
      and sy: "js_add64 (Fin y) (Fin h) = Fin sy"
  shows "goalOverlap64 st (finiteRect x y w h) L =
           (x < of_int gx * TILE_SIZE + TILE_SIZE \<and> of_int gx * TILE_SIZE < sx \<and>
            y < of_int gy * TILE_SIZE + TILE_SIZE \<and> of_int gy * TILE_SIZE < sy)"
  unfolding goalOverlap64_def
  by (simp add: p finiteRect_def Let_def round64_goal_edge[OF bx] round64_goal_edge[OF by']
        sx sy js_gt_def del: js_add64.simps)

lemma checkGoal64_eq:
  "checkGoal64 st r L =
     ((goalOverlap64 st r L, if goalOverlap64 st r L \<and> \<not> goalReached L then [''levelComplete''] else []),
      L\<lparr>goalReached := goalReached L \<or> goalOverlap64 st r L\<rparr>)"
  by (cases "goalReached L") (simp_all add: checkGoal64_def Let_def)

lemma detectCollision64_goalOnly:
  assumes sx: "js_add64 (Fin x) (Fin w) = Fin sx"
      and sy: "js_add64 (Fin y) (Fin h) = Fin sy"
      and ex: "binary64 (x / TILE_SIZE)" "binary64 (sx / TILE_SIZE)"
      and ey: "binary64 (y / TILE_SIZE)" "binary64 (sy / TILE_SIZE)"
      and ix: "- (2 ^ 53) \<le> \<lfloor>x / TILE_SIZE\<rfloor>" "\<lfloor>sx / TILE_SIZE\<rfloor> < 2 ^ 53"
      and iy: "- (2 ^ 53) \<le> \<lfloor>y / TILE_SIZE\<rfloor>" "\<lfloor>sy / TILE_SIZE\<rfloor> < 2 ^ 53"
  shows "detectCollision64 (spec_goalOnlyLevel64 gx gy)
           \<lparr> rectObj = rectObject (finiteRect x y w h), others = () \<rparr> =
         Some (Inr (gx \<in> {\<lfloor>x / TILE_SIZE\<rfloor>..\<lfloor>sx / TILE_SIZE\<rfloor>} \<and>
                    gy \<in> {\<lfloor>y / TILE_SIZE\<rfloor>..\<lfloor>sy / TILE_SIZE\<rfloor>}),
               \<lparr> rectObj = rectObject (finiteRect x y w h), others = () \<rparr>)"
proof -
  let ?s = "\<lparr> rectObj = rectObject (finiteRect x y w h), others = () \<rparr>"
  let ?p = "\<lambda>tx ty. JBool (tx = Fin (of_int gx) \<and> ty = Fin (of_int gy))"
  have "detectCollision64 (spec_goalOnlyLevel64 gx gy) ?s =
          Some (Inr (\<exists>ty\<in>{\<lfloor>y / TILE_SIZE\<rfloor>..\<lfloor>sy / TILE_SIZE\<rfloor>}.
                     \<exists>tx\<in>{\<lfloor>x / TILE_SIZE\<rfloor>..\<lfloor>sx / TILE_SIZE\<rfloor>}.
                       truthy (?p (Fin (of_int tx)) (Fin (of_int ty)))), ?s)"
    unfolding spec_goalOnlyLevel64_def
  proof (rule detectCollision64_pure[where p = ?p and x = x and y = y and w = w and h = h])
    show "tileIndex (Fin x) = Fin (of_int \<lfloor>x / TILE_SIZE\<rfloor>)"
      by (rule tileIndex_exact[OF ex(1)])
    show "tileIndex (js_add64 (Fin x) (Fin w)) = Fin (of_int \<lfloor>sx / TILE_SIZE\<rfloor>)"
      unfolding sx by (rule tileIndex_exact[OF ex(2)])
    show "tileIndex (Fin y) = Fin (of_int \<lfloor>y / TILE_SIZE\<rfloor>)"
      by (rule tileIndex_exact[OF ey(1)])
    show "tileIndex (js_add64 (Fin y) (Fin h)) = Fin (of_int \<lfloor>sy / TILE_SIZE\<rfloor>)"
      unfolding sy by (rule tileIndex_exact[OF ey(2)])
  qed (use ix iy in \<open>simp_all add: rectObject_def finiteRect_def\<close>)
  moreover have "(\<exists>ty\<in>{\<lfloor>y / TILE_SIZE\<rfloor>..\<lfloor>sy / TILE_SIZE\<rfloor>}.
                     \<exists>tx\<in>{\<lfloor>x / TILE_SIZE\<rfloor>..\<lfloor>sx / TILE_SIZE\<rfloor>}.
                       truthy (?p (Fin (of_int tx)) (Fin (of_int ty)))) =
                 (gx \<in> {\<lfloor>x / TILE_SIZE\<rfloor>..\<lfloor>sx / TILE_SIZE\<rfloor>} \<and>
                  gy \<in> {\<lfloor>y / TILE_SIZE\<rfloor>..\<lfloor>sy / TILE_SIZE\<rfloor>})"
    by auto
  ultimately show ?thesis by (simp only:)
qed

text \<open>
  C5, as amended. Let the goal coordinates be below \<open>2^47\<close> in magnitude, let \<open>playerRect\<close>
  have finite fields, and let \<open>sx\<close> and \<open>sy\<close> be the binary64 sums \<open>x + width\<close> and
  \<open>y + height\<close>, both finite. Then \<open>checkGoal\<close> returns true exactly when the goal tile lies
  in the inclusive floored range \<open>[floor(x/T), floor(sx/T)] \<times> [floor(y/T), floor(sy/T)]\<close>
  and, besides, neither \<open>sx = goal.x * T\<close> nor \<open>sy = goal.y * T\<close>. Where the four divisions
  by \<open>T\<close> are exact and the four tile indices lie in \<open>[-2^53, 2^53)\<close>, the collision algorithm
  against a level whose only solid tile is the goal tile returns true exactly when the goal
  tile lies in that range. So the two agree unless the right or bottom edge of the rectangle
  lies exactly on the left or top edge of the goal tile, where \<open>checkGoal\<close> returns false.
\<close>

theorem checkGoal64_is_range_test_without_edge_contact:
  assumes goal: "getGoalPosition st L = (gx, gy)"
      and bx: "\<bar>gx\<bar> < 2 ^ 47" and by': "\<bar>gy\<bar> < 2 ^ 47"
      and sx: "js_add64 (Fin x) (Fin w) = Fin sx"
      and sy: "js_add64 (Fin y) (Fin h) = Fin sy"
  shows "fst (fst (checkGoal64 st (finiteRect x y w h) L)) =
           (gx \<in> {\<lfloor>x / TILE_SIZE\<rfloor>..\<lfloor>sx / TILE_SIZE\<rfloor>} \<and>
            gy \<in> {\<lfloor>y / TILE_SIZE\<rfloor>..\<lfloor>sy / TILE_SIZE\<rfloor>} \<and>
            sx \<noteq> of_int gx * TILE_SIZE \<and> sy \<noteq> of_int gy * TILE_SIZE) \<and>
         (binary64 (x / TILE_SIZE) \<and> binary64 (sx / TILE_SIZE) \<and>
          binary64 (y / TILE_SIZE) \<and> binary64 (sy / TILE_SIZE) \<and>
          - (2 ^ 53) \<le> \<lfloor>x / TILE_SIZE\<rfloor> \<and> \<lfloor>sx / TILE_SIZE\<rfloor> < 2 ^ 53 \<and>
          - (2 ^ 53) \<le> \<lfloor>y / TILE_SIZE\<rfloor> \<and> \<lfloor>sy / TILE_SIZE\<rfloor> < 2 ^ 53 \<longrightarrow>
          detectCollision64 (spec_goalOnlyLevel64 gx gy)
            \<lparr> rectObj = rectObject (finiteRect x y w h), others = () \<rparr> =
          Some (Inr (gx \<in> {\<lfloor>x / TILE_SIZE\<rfloor>..\<lfloor>sx / TILE_SIZE\<rfloor>} \<and>
                     gy \<in> {\<lfloor>y / TILE_SIZE\<rfloor>..\<lfloor>sy / TILE_SIZE\<rfloor>}),
                \<lparr> rectObj = rectObject (finiteRect x y w h), others = () \<rparr>))"
proof -
  from goal have p: "pointAt st (goal L) = (gx, gy)" by (simp add: getGoalPosition_def)
  have "fst (fst (checkGoal64 st (finiteRect x y w h) L)) = goalOverlap64 st (finiteRect x y w h) L"
    by (simp add: checkGoal64_eq)
  also have "\<dots> = (gx \<in> {\<lfloor>x / TILE_SIZE\<rfloor>..\<lfloor>sx / TILE_SIZE\<rfloor>} \<and>
            gy \<in> {\<lfloor>y / TILE_SIZE\<rfloor>..\<lfloor>sy / TILE_SIZE\<rfloor>} \<and>
            sx \<noteq> of_int gx * TILE_SIZE \<and> sy \<noteq> of_int gy * TILE_SIZE)"
    unfolding goalOverlap64_Fin[OF p bx by' sx sy] atLeastAtMost_iff
      floor_div_TILE_SIZE_le le_floor_div_TILE_SIZE
    by auto
  finally show ?thesis
    using detectCollision64_goalOnly[OF sx sy] by blast
qed

theorem checkGoal64_is_range_test_without_edge_contact_witness:
  "getGoalPosition test_store test_Level = (3, 2) \<and>
   js_add64 (Fin 100) (Fin 10) = Fin 110 \<and> js_add64 (Fin 70) (Fin 10) = Fin 80 \<and>
   fst (fst (checkGoal64 test_store (finiteRect 100 70 10 10) test_Level)) = True \<and>
   detectCollision64 (spec_goalOnlyLevel64 3 2)
     \<lparr> rectObj = rectObject (finiteRect 100 70 10 10), others = () \<rparr> =
   Some (Inr True, \<lparr> rectObj = rectObject (finiteRect 100 70 10 10), others = () \<rparr>)"
proof -
  have sx: "js_add64 (Fin 100) (Fin 10) = Fin 110"
    using js_add64_of_int[of 100 10] by simp
  have sy: "js_add64 (Fin 70) (Fin 10) = Fin 80"
    using js_add64_of_int[of 70 10] by simp
  have b: "binary64 (100 / TILE_SIZE)" "binary64 (110 / TILE_SIZE)"
          "binary64 (70 / TILE_SIZE)" "binary64 (80 / TILE_SIZE)"
    using binary64_of_int_div_TILE_SIZE[of 100] binary64_of_int_div_TILE_SIZE[of 110]
      binary64_of_int_div_TILE_SIZE[of 70] binary64_of_int_div_TILE_SIZE[of 80]
    by simp_all
  have fl: "\<lfloor>100 / TILE_SIZE\<rfloor> = 3" "\<lfloor>110 / TILE_SIZE\<rfloor> = 3"
           "\<lfloor>70 / TILE_SIZE\<rfloor> = 2" "\<lfloor>80 / TILE_SIZE\<rfloor> = 2"
    by (simp_all add: TILE_SIZE_def)
  note facts = checkGoal64_is_range_test_without_edge_contact
      [OF test_goal _ _ sx sy]
  have bounds: "\<bar>3 :: int\<bar> < 2 ^ 47" "\<bar>2 :: int\<bar> < 2 ^ 47" by simp_all
  from facts[OF bounds] have
    a: "fst (fst (checkGoal64 test_store (finiteRect 100 70 10 10) test_Level)) = True"
    by (simp add: fl TILE_SIZE_def)
  from facts[OF bounds] b have
    c: "detectCollision64 (spec_goalOnlyLevel64 3 2)
          \<lparr> rectObj = rectObject (finiteRect 100 70 10 10), others = () \<rparr> =
        Some (Inr True, \<lparr> rectObj = rectObject (finiteRect 100 70 10 10), others = () \<rparr>)"
    by (simp add: fl)
  from a c sx sy test_goal show ?thesis by blast
qed

text \<open>
  C5 as stated fails for the rectangle \<open>(64, 64, 32, 32)\<close> and the goal tile \<open>(3, 2)\<close>: the
  tile is in the floored range and the collision algorithm reports it, but the right edge
  \<open>64 + 32\<close> only touches the tile's left edge \<open>3 * 32\<close>, and \<open>checkGoal\<close> returns false.
\<close>

theorem checkGoal64_differs_from_collision_algorithm_counterexample:
  "Level_constructor test_store test_rawData = Inr test_Level \<and>
   getGoalPosition test_store test_Level = (3, 2) \<and>
   (0 :: real) < 32 \<and>
   tileIndex (Fin 64) = Fin 2 \<and>
   tileIndex (js_add64 (Fin 64) (Fin 32)) = Fin 3 \<and>
   detectCollision64 (spec_goalOnlyLevel64 3 2)
     \<lparr> rectObj = rectObject (finiteRect 64 64 32 32), others = () \<rparr> =
   Some (Inr True, \<lparr> rectObj = rectObject (finiteRect 64 64 32 32), others = () \<rparr>) \<and>
   checkGoal64 test_store (finiteRect 64 64 32 32) test_Level = ((False, []), test_Level)"
proof -
  have s: "js_add64 (Fin 64) (Fin 32) = Fin 96"
    using js_add64_of_int[of 64 32] by simp
  have i1: "tileIndex (Fin 64) = Fin 2"
    using tileIndex_of_int[of 64] by simp
  have i2: "tileIndex (js_add64 (Fin 64) (Fin 32)) = Fin 3"
    unfolding s using tileIndex_of_int[of 96] by simp
  have b: "binary64 (64 / TILE_SIZE)" "binary64 (96 / TILE_SIZE)"
    using binary64_of_int_div_TILE_SIZE[of 64] binary64_of_int_div_TILE_SIZE[of 96]
    by simp_all
  have fl: "\<lfloor>64 / TILE_SIZE\<rfloor> = 2" "\<lfloor>96 / TILE_SIZE\<rfloor> = 3"
    by (simp_all add: TILE_SIZE_def)
  have p: "pointAt test_store (goal test_Level) = (3, 2)"
    using test_goal by (simp add: getGoalPosition_def)
  have "\<not> goalOverlap64 test_store (finiteRect 64 64 32 32) test_Level"
    using goalOverlap64_Fin[OF p _ _ s s] by (simp add: TILE_SIZE_def)
  then have c: "checkGoal64 test_store (finiteRect 64 64 32 32) test_Level = ((False, []), test_Level)"
    by (simp add: checkGoal64_def)
  have d: "detectCollision64 (spec_goalOnlyLevel64 3 2)
     \<lparr> rectObj = rectObject (finiteRect 64 64 32 32), others = () \<rparr> =
     Some (Inr True, \<lparr> rectObj = rectObject (finiteRect 64 64 32 32), others = () \<rparr>)"
    using detectCollision64_goalOnly[OF s s b b, of 3 2] by (simp add: fl)
  from c d i1 i2 test_Level_constructed test_goal show ?thesis by simp
qed

text \<open>
  A sum that is rounded: \<open>2^-60 + 96\<close> is 96 in binary64, so a rectangle that starts at
  \<open>2^-60\<close> and is 96 wide does not reach past the left edge \<open>96\<close> of the goal tile \<open>(3, 2)\<close>.
\<close>

lemma round64_tiny_plus_96: "round64 (1 / 2 ^ 60 + 96) = Fin 96"
proof -
  have q: "(1 / 2 ^ 60 + 96 :: real) / 2 powi (- 46) = of_int (96 * 2 ^ 46) + 1 / 2 ^ 14"
    by (simp add: power_int_minus field_simps)
  have fl: "\<lfloor>of_int (96 * 2 ^ 46) + (1 / 2 ^ 14 :: real)\<rfloor> = 96 * 2 ^ 46"
    by (rule floor_unique) simp_all
  have n: "round_even ((1 / 2 ^ 60 + 96 :: real) / 2 powi (- 46)) = 96 * 2 ^ 46"
    unfolding q round_even_def Let_def fl by simp
  have "round64 (1 / 2 ^ 60 + 96) = Fin (of_int (96 * 2 ^ 46) * 2 powi (- 46))"
  proof (rule round64_eq[where k = 6])
    show "round_even ((1 / 2 ^ 60 + 96) / 2 powi (- 46)) = 96 * 2 ^ 46" by (rule n)
  qed (simp_all add: power_int_minus)
  then show ?thesis by (simp add: power_int_minus)
qed

lemma checkGoal64_rounded_sum:
  "checkGoal64 test_store (finiteRect (1 / 2 ^ 60) 70 96 10) test_Level = ((False, []), test_Level)"
proof -
  have sx: "js_add64 (Fin (1 / 2 ^ 60)) (Fin 96) = Fin 96"
    using round64_tiny_plus_96 by simp
  have sy: "js_add64 (Fin 70) (Fin 10) = Fin 80"
    using js_add64_of_int[of 70 10] by simp
  have p: "pointAt test_store (goal test_Level) = (3, 2)"
    using test_goal by (simp add: getGoalPosition_def)
  have "\<not> goalOverlap64 test_store (finiteRect (1 / 2 ^ 60) 70 96 10) test_Level"
    using goalOverlap64_Fin[OF p _ _ sx sy] by (simp add: TILE_SIZE_def)
  then show ?thesis by (simp add: checkGoal64_def)
qed

section \<open>The exact-real definitions and binary64\<close>

text \<open>
  Two properties proved above for the definitions in exact reals, here for the binary64
  ones: an exact edge contact with a goal tile whose coordinates are below \<open>2^47\<close> is not
  an overlap, and the argument guard of \<open>detectCollision\<close> rejects the same arguments.
\<close>

lemma checkGoal64_edge_contact:
  assumes goal: "getGoalPosition st L = (gx, gy)"
      and bx: "\<bar>gx\<bar> < 2 ^ 47" and by': "\<bar>gy\<bar> < 2 ^ 47"
      and touch: "x + w = of_int gx * TILE_SIZE \<or> y + h = of_int gy * TILE_SIZE \<or>
                  x = of_int (gx + 1) * TILE_SIZE \<or> y = of_int (gy + 1) * TILE_SIZE"
  shows "checkGoal64 st (finiteRect x y w h) L = ((False, []), L)"
proof -
  from goal have p: "pointAt st (goal L) = (gx, gy)" by (simp add: getGoalPosition_def)
  note ex = round64_goal_edge[OF bx] and ey = round64_goal_edge[OF by']
  have "\<not> goalOverlap64 st (finiteRect x y w h) L"
    using touch
  proof (elim disjE)
    assume "x + w = of_int gx * TILE_SIZE"
    then have "js_add64 (Fin x) (Fin w) = Fin (of_int gx * TILE_SIZE)" by (simp add: ex)
    then show ?thesis
      by (simp add: goalOverlap64_def p finiteRect_def Let_def ex js_gt_def del: js_add64.simps)
  next
    assume "y + h = of_int gy * TILE_SIZE"
    then have "js_add64 (Fin y) (Fin h) = Fin (of_int gy * TILE_SIZE)" by (simp add: ey)
    then show ?thesis
      by (simp add: goalOverlap64_def p finiteRect_def Let_def ey js_gt_def del: js_add64.simps)
  next
    assume c: "x = of_int (gx + 1) * TILE_SIZE"
    have "js_add64 (round64 (of_int gx * TILE_SIZE)) (Fin TILE_SIZE) =
            Fin (of_int gx * TILE_SIZE + TILE_SIZE)"
      unfolding ex(1) by (rule ex(2))
    also have "of_int gx * TILE_SIZE + TILE_SIZE = x"
      using c by (simp add: algebra_simps)
    finally have e: "js_add64 (round64 (of_int gx * TILE_SIZE)) (Fin TILE_SIZE) = Fin x" .
    show ?thesis
      by (simp add: goalOverlap64_def p finiteRect_def Let_def e del: js_add64.simps)
  next
    assume c: "y = of_int (gy + 1) * TILE_SIZE"
    have "js_add64 (round64 (of_int gy * TILE_SIZE)) (Fin TILE_SIZE) =
            Fin (of_int gy * TILE_SIZE + TILE_SIZE)"
      unfolding ey(1) by (rule ey(2))
    also have "of_int gy * TILE_SIZE + TILE_SIZE = y"
      using c by (simp add: algebra_simps)
    finally have e: "js_add64 (round64 (of_int gy * TILE_SIZE)) (Fin TILE_SIZE) = Fin y" .
    show ?thesis
      by (simp add: goalOverlap64_def p finiteRect_def Let_def e del: js_add64.simps)
  qed
  then show ?thesis by (simp add: checkGoal64_def)
qed

lemma detectCollision64_guard:
  "(detectCollision64 level s = Some (Inl InvalidPlayerRect, s) \<or>
    detectCollision64 level s = Some (Inl InvalidLevel, s)) =
   (\<not> (\<exists>x y w h. getProp (rectObj s) ''x'' = JNum x \<and> getProp (rectObj s) ''y'' = JNum y \<and>
                  getProp (rectObj s) ''width'' = JNum w \<and> getProp (rectObj s) ''height'' = JNum h) \<or>
    level = LevelFalsy \<or> level = LevelNotCallable)"
proof (cases "\<exists>x y w h. getProp (rectObj s) ''x'' = JNum x \<and> getProp (rectObj s) ''y'' = JNum y \<and>
                  getProp (rectObj s) ''width'' = JNum w \<and> getProp (rectObj s) ''height'' = JNum h")
  case False
  then have "\<not> truthy (rectObj s) \<or>
         typeof (getProp (rectObj s) ''x'') \<noteq> ''number'' \<or>
         typeof (getProp (rectObj s) ''y'') \<noteq> ''number'' \<or>
         typeof (getProp (rectObj s) ''width'') \<noteq> ''number'' \<or>
         typeof (getProp (rectObj s) ''height'') \<noteq> ''number''"
    unfolding typeof_number by blast
  then have "detectCollision64 level s = Some (Inl InvalidPlayerRect, s)"
    unfolding detectCollision64_def Let_def by (rule if_P)
  with False show ?thesis by blast
next
  case True
  then obtain x y w h where f: "getProp (rectObj s) ''x'' = JNum x" "getProp (rectObj s) ''y'' = JNum y"
    "getProp (rectObj s) ''width'' = JNum w" "getProp (rectObj s) ''height'' = JNum h"
    by blast
  have t: "truthy (rectObj s)" using f(1) by (rule getProp_JNum_truthy)
  show ?thesis
  proof (cases level)
    case LevelFalsy
    then show ?thesis by (simp add: detectCollision64_def t f)
  next
    case LevelNotCallable
    then show ?thesis by (simp add: detectCollision64_def t f)
  next
    case (LevelCallable m)
    then have "detectCollision64 level s \<noteq> Some (Inl InvalidPlayerRect, s)"
      and "detectCollision64 level s \<noteq> Some (Inl InvalidLevel, s)"
      by (auto simp: detectCollision64_def t f Let_def split: option.splits prod.splits sum.splits)
    with True LevelCallable show ?thesis by simp
  qed
qed

end
